theory Spec2Isabelle
  imports Complex_Main "HOL-Library.AList"
begin

section \<open>Python strings\<close>

text \<open>
  A Python \<open>str\<close> is modelled as a \<open>string\<close> (a list of characters). \<open>split_str c s\<close>
  is \<open>s.split(c)\<close> for a separator \<open>c\<close> of one character: the segments between the
  occurrences of \<open>c\<close>, of which there is always at least one.
\<close>

fun split_str :: "char \<Rightarrow> string \<Rightarrow> string list" where
  "split_str c [] = [[]]"
| "split_str c (x # xs) =
     (if x = c then [] # split_str c xs
      else (case split_str c xs of
              [] \<Rightarrow> [[x]]
            | seg # segs \<Rightarrow> (x # seg) # segs))"

section \<open>SAPIENS_OT_export_parts.get_model_name\<close>

text \<open>
  \<^verbatim>\<open>
  def get_model_name(self, mesh_name : str):
      if "."  in mesh_name:
          mesh_name = mesh_name.split(".")[0]
      if "_" in mesh_name:
          mesh_name = mesh_name.split("_")[0]
      return mesh_name
  \<close>
  \<open>split\<close> never returns an empty list (lemma \<open>split_str_not_Nil\<close>), so the index
  \<open>[0]\<close> is the head of the list.
\<close>

definition get_model_name :: "string \<Rightarrow> string" where
  "get_model_name mesh_name =
     (let mesh_name1 =
            (if CHR ''.'' \<in> set mesh_name then hd (split_str (CHR ''.'') mesh_name)
             else mesh_name);
          mesh_name2 =
            (if CHR ''_'' \<in> set mesh_name1 then hd (split_str (CHR ''_'') mesh_name1)
             else mesh_name1)
      in mesh_name2)"

section \<open>Python values and errors\<close>

text \<open>
  The values that \<open>json.load\<close> returns and \<open>json.dump\<close> accepts: \<open>None\<close>, numbers,
  strings, lists and dictionaries with string keys. A Python \<open>float\<close> is modelled as a
  real number (an \<open>int\<close> and a \<open>bool\<close> are the numbers they compare equal to), so
  binary rounding is outside the model. A dictionary is an association list in insertion
  order, read with \<open>map_of\<close>.
\<close>

datatype pyval =
    PyNone
  | PyNum real
  | PyStr string
  | PyList "pyval list"
  | PyDict "(string \<times> pyval) list"

datatype py_error =
  AttributeError | KeyError | TypeError | ValueError | UnboundLocalError | ReferenceError

text \<open>\<open>d.get(k, default)\<close>\<close>

definition dict_get :: "(string \<times> pyval) list \<Rightarrow> string \<Rightarrow> pyval \<Rightarrow> pyval" where
  "dict_get d k dflt = (case map_of d k of None \<Rightarrow> dflt | Some v \<Rightarrow> v)"

text \<open>
  \<open>round(x, 3)\<close>: the multiple of \<open>1/1000\<close> nearest to \<open>x\<close>, a tie going to the even
  multiple.
\<close>

definition round_half_even :: "real \<Rightarrow> int" where
  "round_half_even y =
     (let f = \<lfloor>y\<rfloor>; d = y - of_int f
      in if d < 1 / 2 then f
         else if 1 / 2 < d then f + 1
         else if even f then f else f + 1)"

definition round3 :: "real \<Rightarrow> real" where
  "round3 x = of_int (round_half_even (x * 1000)) / 1000"

text \<open>The number of floating-point values a JSON value carries.\<close>

fun count_floats :: "pyval \<Rightarrow> nat" where
  "count_floats PyNone = 0"
| "count_floats (PyNum x) = 1"
| "count_floats (PyStr s) = 0"
| "count_floats (PyList vs) = sum_list (map count_floats vs)"
| "count_floats (PyDict d) = sum_list (map (\<lambda>kv. count_floats (snd kv)) d)"

section \<open>Materials and shader nodes\<close>

text \<open>
  What the code reads and writes of Blender's data: a shader node has a type
  (\<open>node.type\<close>) and, read by the code only on a node of type \<open>BSDF_PRINCIPLED\<close>, the
  default values of its inputs \<open>Base Color\<close> (four floats, RGBA), \<open>Metallic\<close> and
  \<open>Roughness\<close>. A material has a name, the flag \<open>use_nodes\<close> and a node tree, which is
  \<open>None\<close> as long as the material never used nodes.
\<close>

type_synonym rgba = "real \<times> real \<times> real \<times> real"

record node =
  ntype :: string
  in_base_color :: rgba
  in_metallic :: real
  in_roughness :: real

record material =
  mat_name :: string
  use_nodes :: bool
  node_tree :: "node list option"

section \<open>MaterialFile.material_to_json\<close>

text \<open>
  \<^verbatim>\<open>
  bsdf = None
  if material and material.use_nodes:
      for node in material.node_tree.nodes:
          if node.type == 'BSDF_PRINCIPLED':
              bsdf = node
              break
  if not bsdf:
      print(f"No Principled BSDF found in material {material.name}")
      return None
  color = bsdf.inputs['Base Color'].default_value[:3]  # RGB only
  metal = bsdf.inputs['Metallic'].default_value
  roughness = bsdf.inputs['Roughness'].default_value
  mat_data = {
      "identifier": material.name,
      "color": [round(c, 3) for c in color],
      "metal": round(metal, 3),
      "roughness": round(roughness, 3)
  }
  return mat_data
  \<close>
\<close>

text \<open>The loop with its \<open>break\<close>: the first node of type \<open>BSDF_PRINCIPLED\<close>, if any.\<close>

fun find_bsdf :: "node list \<Rightarrow> node option" where
  "find_bsdf [] = None"
| "find_bsdf (n # ns) = (if ntype n = ''BSDF_PRINCIPLED'' then Some n else find_bsdf ns)"

definition mat_data :: "string \<Rightarrow> node \<Rightarrow> pyval" where
  "mat_data nm bsdf =
     (case in_base_color bsdf of (r, g, b, a) \<Rightarrow>
        PyDict [(''identifier'', PyStr nm),
                (''color'', PyList (map (\<lambda>c. PyNum (round3 c)) [r, g, b])),
                (''metal'', PyNum (round3 (in_metallic bsdf))),
                (''roughness'', PyNum (round3 (in_roughness bsdf)))])"

text \<open>
  The argument is \<open>None\<close> or a material. With \<open>None\<close>, \<open>bsdf\<close> stays \<open>None\<close> and the
  \<open>print\<close> reads \<open>material.name\<close>, which raises. A material that uses nodes and has no
  node tree (a state Blender does not produce) raises at \<open>material.node_tree.nodes\<close>.
\<close>

definition material_to_json :: "material option \<Rightarrow> py_error + pyval" where
  "material_to_json material =
     (case material of
        None \<Rightarrow> Inl AttributeError
      | Some m \<Rightarrow>
          if use_nodes m then
            (case node_tree m of
               None \<Rightarrow> Inl AttributeError
             | Some nodes \<Rightarrow>
                 (case find_bsdf nodes of
                    None \<Rightarrow> Inr PyNone
                  | Some bsdf \<Rightarrow> Inr (mat_data (mat_name m) bsdf)))
          else Inr PyNone)"

section \<open>Blender's data-blocks\<close>

text \<open>
  A collection of data-blocks (\<open>bpy.data.materials\<close>, \<open>bpy.data.objects\<close>) is a store:
  a list indexed by addresses, whose entry is \<open>None\<close> once the data-block is removed.
  A Python variable or a material slot that refers to a data-block holds its address.
  Iterating over the collection visits the live addresses in order.
\<close>

definition heap_get :: "'a option list \<Rightarrow> nat \<Rightarrow> 'a option" where
  "heap_get h a = (if a < length h then h ! a else None)"

definition heap_put :: "'a option list \<Rightarrow> nat \<Rightarrow> 'a \<Rightarrow> 'a option list" where
  "heap_put h a x = h[a := Some x]"

definition heap_update :: "'a option list \<Rightarrow> nat \<Rightarrow> ('a \<Rightarrow> 'a) \<Rightarrow> 'a option list" where
  "heap_update h a f = (case heap_get h a of None \<Rightarrow> h | Some x \<Rightarrow> h[a := Some (f x)])"

definition heap_remove :: "'a option list \<Rightarrow> nat \<Rightarrow> 'a option list" where
  "heap_remove h a = h[a := None]"

definition heap_new :: "'a option list \<Rightarrow> 'a \<Rightarrow> nat \<times> 'a option list" where
  "heap_new h x = (length h, h @ [Some x])"

definition live :: "'a option list \<Rightarrow> nat list" where
  "live h = filter (\<lambda>a. h ! a \<noteq> None) [0..<length h]"

text \<open>The first live address from \<open>k\<close> on whose data-block satisfies \<open>P\<close>.\<close>

fun find_addr :: "('a \<Rightarrow> bool) \<Rightarrow> 'a option list \<Rightarrow> nat \<Rightarrow> nat option" where
  "find_addr P [] k = None"
| "find_addr P (x # xs) k =
     (case x of
        None \<Rightarrow> find_addr P xs (Suc k)
      | Some v \<Rightarrow> if P v then Some k else find_addr P xs (Suc k))"

text \<open>
  Blender keeps the names of the data-blocks of one kind distinct: a requested name that
  is in use gets a numeric suffix (\<open>bone.001\<close>, the names the operator Remove Duplicates
  is about). \<open>unique_name used nm\<close> is the name Blender gives when \<open>nm\<close> is asked for
  and the names \<open>used\<close> are taken by the other data-blocks: \<open>nm\<close> itself when it is
  free, else \<open>nm\<close> with the first free suffix from \<open>.001\<close> on. Blender's bound on the
  length of a name and the default name it gives for the empty string are outside the
  model.
\<close>

definition digit_char :: "nat \<Rightarrow> char" where
  "digit_char d = ''0123456789'' ! (d mod 10)"

definition suffix3 :: "nat \<Rightarrow> string" where
  "suffix3 k = [CHR ''.'', digit_char (k div 100 mod 10), digit_char (k div 10 mod 10),
                digit_char (k mod 10)]"

fun first_free :: "string list \<Rightarrow> string \<Rightarrow> nat \<Rightarrow> nat \<Rightarrow> string" where
  "first_free used nm k 0 = nm @ suffix3 k"
| "first_free used nm k (Suc fuel) =
     (if nm @ suffix3 k \<in> set used then first_free used nm (Suc k) fuel
      else nm @ suffix3 k)"

definition unique_name :: "string list \<Rightarrow> string \<Rightarrow> string" where
  "unique_name used nm = (if nm \<in> set used then first_free used nm 1 (length used) else nm)"

section \<open>bpy.data.materials\<close>

text \<open>\<open>bpy.data.materials.get(name)\<close>: the address of the material of that name, if any.\<close>

definition materials_get :: "material option list \<Rightarrow> string \<Rightarrow> nat option" where
  "materials_get mats nm = find_addr (\<lambda>m. mat_name m = nm) mats 0"

definition material_names :: "material option list \<Rightarrow> string list" where
  "material_names mats = map mat_name (List.map_filter id mats)"

text \<open>\<open>bpy.data.materials.new(name=name)\<close>: a material that does not use nodes yet.\<close>

definition materials_new :: "material option list \<Rightarrow> string \<Rightarrow> nat \<times> material option list" where
  "materials_new mats nm =
     heap_new mats \<lparr>mat_name = unique_name (material_names mats) nm,
                    use_nodes = False, node_tree = None\<rparr>"

text \<open>
  \<open>material.use_nodes = True\<close>: Blender gives a material without a node tree the default
  tree, a Principled BSDF node linked to a Material Output node.
\<close>

definition default_bsdf :: node where
  "default_bsdf = \<lparr>ntype = ''BSDF_PRINCIPLED'', in_base_color = (4/5, 4/5, 4/5, 1),
                    in_metallic = 0, in_roughness = 1/2\<rparr>"

definition default_output :: node where
  "default_output = \<lparr>ntype = ''OUTPUT_MATERIAL'', in_base_color = (0, 0, 0, 0),
                      in_metallic = 0, in_roughness = 0\<rparr>"

definition set_use_nodes_True :: "material \<Rightarrow> material" where
  "set_use_nodes_True m =
     m\<lparr>use_nodes := True,
       node_tree := (case node_tree m of
                       None \<Rightarrow> Some [default_bsdf, default_output]
                     | Some nodes \<Rightarrow> Some nodes)\<rparr>"

section \<open>MaterialFile.json_to_material\<close>

text \<open>
  \<^verbatim>\<open>
  name = data.get("identifier", "Material")
  color = data.get("color", [1.0, 1.0, 1.0])
  metal = data.get("metal", 0.0)
  roughness = data.get("roughness", 0.5)
  material = bpy.data.materials.get(name)
  if not material:
      material = bpy.data.materials.new(name=name)
      material.use_nodes = True
  nodes = material.node_tree.nodes
  links = material.node_tree.links
  nodes.clear()
  output_node = nodes.new(type='ShaderNodeOutputMaterial')
  output_node.location = (300, 0)
  bsdf_node = nodes.new(type='ShaderNodeBsdfPrincipled')
  bsdf_node.location = (0, 0)
  bsdf_node.inputs['Base Color'].default_value = (*color, 1.0)  # RGBA
  bsdf_node.inputs['Metallic'].default_value = metal
  bsdf_node.inputs['Roughness'].default_value = roughness
  links.new(bsdf_node.outputs['BSDF'], output_node.inputs['Surface'])
  return material
  \<close>
  The positions of the nodes and the link are not read by any code of the repository
  and are left out. An input keeps the number assigned to it (Blender's conversion to
  single precision and the limits of an input are outside the model). The result is the
  address of the material with the new \<open>bpy.data.materials\<close>; the state a raised
  exception leaves behind is not tracked.
\<close>

text \<open>What iterating over a value yields (\<open>*color\<close>, \<open>for x in v\<close>).\<close>

definition py_iter :: "pyval \<Rightarrow> py_error + pyval list" where
  "py_iter v =
     (case v of
        PyList vs \<Rightarrow> Inr vs
      | PyStr s \<Rightarrow> Inr (map (\<lambda>c. PyStr [c]) s)
      | PyDict d \<Rightarrow> Inr (map (\<lambda>kv. PyStr (fst kv)) d)
      | PyNone \<Rightarrow> Inl TypeError
      | PyNum x \<Rightarrow> Inl TypeError)"

text \<open>Assigning a sequence to the default value of a colour input, an array of four floats.\<close>

definition assign_rgba :: "pyval list \<Rightarrow> py_error + rgba" where
  "assign_rgba vs =
     (case vs of
        [PyNum r, PyNum g, PyNum b, PyNum a] \<Rightarrow> Inr (r, g, b, a)
      | _ \<Rightarrow> if length vs = 4 then Inl TypeError else Inl ValueError)"

text \<open>Assigning a value to the default value of a float input.\<close>

definition assign_float :: "pyval \<Rightarrow> py_error + real" where
  "assign_float v = (case v of PyNum x \<Rightarrow> Inr x | _ \<Rightarrow> Inl TypeError)"

text \<open>
  The part of the function after \<open>material\<close> is bound: the node tree is cleared and
  rebuilt, the three inputs are assigned.
\<close>

definition rebuild_nodes ::
  "pyval \<Rightarrow> pyval \<Rightarrow> pyval \<Rightarrow> material \<Rightarrow> py_error + material" where
  "rebuild_nodes color metal roughness material =
     (case node_tree material of
        None \<Rightarrow> Inl AttributeError
      | Some nodes \<Rightarrow>
          (case py_iter color of
             Inl e \<Rightarrow> Inl e
           | Inr cs \<Rightarrow>
               (case assign_rgba (cs @ [PyNum 1]) of
                  Inl e \<Rightarrow> Inl e
                | Inr c \<Rightarrow>
                    (case assign_float metal of
                       Inl e \<Rightarrow> Inl e
                     | Inr me \<Rightarrow>
                         (case assign_float roughness of
                            Inl e \<Rightarrow> Inl e
                          | Inr ro \<Rightarrow>
                              (let output_node = default_output;
                                   bsdf_node = default_bsdf\<lparr>in_base_color := c,
                                     in_metallic := me, in_roughness := ro\<rparr>
                               in Inr (material\<lparr>node_tree :=
                                         Some [output_node, bsdf_node]\<rparr>)))))))"

definition json_to_material ::
  "(string \<times> pyval) list \<Rightarrow> material option list \<Rightarrow> py_error + (nat \<times> material option list)" where
  "json_to_material data mats =
     (let name = dict_get data ''identifier'' (PyStr ''Material'');
          color = dict_get data ''color'' (PyList [PyNum 1, PyNum 1, PyNum 1]);
          metal = dict_get data ''metal'' (PyNum 0);
          roughness = dict_get data ''roughness'' (PyNum (1 / 2))
      in case name of
           PyStr nm \<Rightarrow>
             (let (material, mats1) =
                    (case materials_get mats nm of
                       Some a \<Rightarrow> (a, mats)
                     | None \<Rightarrow>
                         (let (a, ms) = materials_new mats nm
                          in (a, heap_update ms a set_use_nodes_True)))
              in case heap_get mats1 material of
                   None \<Rightarrow> Inl ReferenceError
                 | Some m \<Rightarrow>
                     (case rebuild_nodes color metal roughness m of
                        Inl e \<Rightarrow> Inl e
                      | Inr m1 \<Rightarrow> Inr (material, heap_put mats1 material m1)))
         | _ \<Rightarrow> Inl TypeError)"

text \<open>
  The round trip of a record: \<open>json_to_material\<close>, then \<open>material_to_json\<close> on the
  material it returns.
\<close>

definition round_trip :: "(string \<times> pyval) list \<Rightarrow> material option list \<Rightarrow> py_error + pyval" where
  "round_trip data mats =
     (case json_to_material data mats of
        Inl e \<Rightarrow> Inl e
      | Inr (material, mats1) \<Rightarrow> material_to_json (heap_get mats1 material))"

section \<open>MaterialFile\<close>

text \<open>
  The material file is seen through its parsed content: \<open>None\<close> when the file does not
  exist, else the value \<open>json.load\<close> returns. \<open>get_material_file_path()\<close> and
  \<open>MaterialFile.get_default_path()\<close> are the same path, so the file that \<open>build_index\<close>
  reads is the file that \<open>ensure_file_exists\<close> and \<open>save\<close> write.
  \<^verbatim>\<open>
  def get_default_data():
      return json.loads('{"hammerstone:global_definitions": {"hs_materials": []}}')

  def ensure_file_exists(self):
      if self.filepath.exists():
          return
      self.filepath.parent.mkdir(exist_ok=True, parents=True)
      with open(self.filepath, "w") as f:
          json.dump(MaterialFile.get_default_data(), f)
  \<close>
\<close>

definition get_default_data :: pyval where
  "get_default_data =
     PyDict [(''hammerstone:global_definitions'', PyDict [(''hs_materials'', PyList [])])]"

definition ensure_file_exists :: "pyval option \<Rightarrow> pyval" where
  "ensure_file_exists file = (case file of Some content \<Rightarrow> content | None \<Rightarrow> get_default_data)"

text \<open>\<open>v[k]\<close> for a string \<open>k\<close>: only a dictionary can be indexed by a string.\<close>

definition py_getitem :: "pyval \<Rightarrow> string \<Rightarrow> py_error + pyval" where
  "py_getitem v k =
     (case v of
        PyDict d \<Rightarrow> (case map_of d k of None \<Rightarrow> Inl KeyError | Some x \<Rightarrow> Inr x)
      | _ \<Rightarrow> Inl TypeError)"

text \<open>A list or a dictionary cannot be the key of a dictionary.\<close>

definition hashable :: "pyval \<Rightarrow> bool" where
  "hashable v = (case v of PyList vs \<Rightarrow> False | PyDict d \<Rightarrow> False | _ \<Rightarrow> True)"

text \<open>\<open>data["hammerstone:global_definitions"]["hs_materials"]\<close>\<close>

definition hs_materials :: "pyval \<Rightarrow> py_error + pyval" where
  "hs_materials data =
     (case py_getitem data ''hammerstone:global_definitions'' of
        Inl e \<Rightarrow> Inl e
      | Inr defs \<Rightarrow> py_getitem defs ''hs_materials'')"

text \<open>
  \<^verbatim>\<open>
  def build_index(self):
      with open(get_material_file_path(), "r") as f:
          data = json.load(f)
      index = {}
      for material in data["hammerstone:global_definitions"]["hs_materials"]:
          index[material["identifier"]] = material
      return index
  \<close>
  The index is a dictionary: an association list in insertion order, in which an
  assignment to a key that is present replaces the value in place
  (\<^const>\<open>AList.update\<close>).
\<close>

type_synonym index = "(pyval \<times> pyval) list"

fun build_index_loop :: "pyval list \<Rightarrow> index \<Rightarrow> py_error + index" where
  "build_index_loop [] index = Inr index"
| "build_index_loop (material # rest) index =
     (case py_getitem material ''identifier'' of
        Inl e \<Rightarrow> Inl e
      | Inr k \<Rightarrow>
          if hashable k then build_index_loop rest (AList.update k material index)
          else Inl TypeError)"

definition build_index :: "pyval \<Rightarrow> py_error + index" where
  "build_index data =
     (case hs_materials data of
        Inl e \<Rightarrow> Inl e
      | Inr v \<Rightarrow>
          (case py_iter v of
             Inl e \<Rightarrow> Inl e
           | Inr ms \<Rightarrow> build_index_loop ms []))"

text \<open>
  \<^verbatim>\<open>
  def __init__(self, filepath : Path):
      self.filepath = filepath
      self.ensure_file_exists()
      self.index = self.build_index()
  \<close>
\<close>

definition MaterialFile_open :: "pyval option \<Rightarrow> py_error + index" where
  "MaterialFile_open file = build_index (ensure_file_exists file)"

text \<open>
  \<^verbatim>\<open>
  def get_materials(self):
      materials = []
      for material in self.index.values():
          materials.append(material)
      return materials

  def save(self):
      data = MaterialFile.get_default_data()
      data["hammerstone:global_definitions"]["hs_materials"] = self.get_materials()
      with open(self.filepath, "w") as f:
          json.dump(data, f)

  def write_material(self, material):
      self.index[material.name] = MaterialFile.material_to_json(material)
  \<close>
  \<open>save\<close> is the content of the file after the call.
\<close>

definition get_materials :: "index \<Rightarrow> pyval list" where
  "get_materials index = map snd index"

definition save :: "index \<Rightarrow> pyval" where
  "save index =
     PyDict [(''hammerstone:global_definitions'',
              PyDict [(''hs_materials'', PyList (get_materials index))])]"

definition write_material :: "index \<Rightarrow> material \<Rightarrow> py_error + index" where
  "write_material index material =
     (case material_to_json (Some material) of
        Inl e \<Rightarrow> Inl e
      | Inr j \<Rightarrow> Inr (AList.update (PyStr (mat_name material)) j index))"

text \<open>A sequence of \<open>write_material\<close> calls; an exception ends it.\<close>

fun write_materials :: "index \<Rightarrow> material list \<Rightarrow> py_error + index" where
  "write_materials index [] = Inr index"
| "write_materials index (material # rest) =
     (case write_material index material of
        Inl e \<Rightarrow> Inl e
      | Inr index1 \<Rightarrow> write_materials index1 rest)"

text \<open>
  \<^verbatim>\<open>
  class SAPIENS_OT_export_materials:
      def execute(self, context):
          material_file = MaterialFile.open()
          for material in bpy.data.materials:
              material_file.write_material(material)
          material_file.save()
          return {'FINISHED'}
  \<close>
  The result is the content of the material file after the operator.
\<close>

definition export_materials_execute :: "pyval option \<Rightarrow> material option list \<Rightarrow> py_error + pyval" where
  "export_materials_execute file mats =
     (case MaterialFile_open file of
        Inl e \<Rightarrow> Inl e
      | Inr index \<Rightarrow>
          (case write_materials index (List.map_filter id mats) of
             Inl e \<Rightarrow> Inl e
           | Inr index1 \<Rightarrow> Inr (save index1)))"

text \<open>The identifier of a record of the file: \<open>None\<close> for a value that has none.\<close>

definition identifier_of :: "pyval \<Rightarrow> pyval option" where
  "identifier_of v = (case v of PyDict d \<Rightarrow> map_of d ''identifier'' | _ \<Rightarrow> None)"

section \<open>pathlib.Path\<close>

text \<open>
  A path of \<open>pathlib\<close> on a POSIX system: whether it starts at the root, and its
  components. \<open>Path(s)\<close> drops the empty components and the components \<open>.\<close> of
  \<open>s\<close>, so \<open>Path("")\<close> is the path of the current directory, which prints as
  \<open>.\<close>. (A path that starts with exactly two slashes, which \<open>pathlib\<close> keeps
  apart, is read as one that starts at the root.)
\<close>

record path =
  anchored :: bool
  names :: "string list"

definition Path :: "string \<Rightarrow> path" where
  "Path s =
     \<lparr>anchored = (take 1 s = ''/''),
      names = filter (\<lambda>n. n \<noteq> [] \<and> n \<noteq> ''.'') (split_str (CHR ''/'') s)\<rparr>"

text \<open>\<open>sep.join(xs)\<close> and \<open>str(p)\<close>\<close>

fun join_str :: "string \<Rightarrow> string list \<Rightarrow> string" where
  "join_str sep [] = []"
| "join_str sep [x] = x"
| "join_str sep (x # y # ys) = x @ sep @ join_str sep (y # ys)"

definition path_str :: "path \<Rightarrow> string" where
  "path_str p =
     (if anchored p then ''/'' @ join_str ''/'' (names p)
      else if names p = [] then ''.''
      else join_str ''/'' (names p))"

text \<open>
  \<open>p.parent\<close>, \<open>p.name\<close> and \<open>p.stem\<close>. The parent of the current directory and of
  the root is the path itself, and their name is empty. The stem is the name up to its
  last dot, when that dot is neither the first nor the last character of the name (as
  \<open>pathlib\<close> computes it up to Python 3.13).
\<close>

definition path_parent :: "path \<Rightarrow> path" where
  "path_parent p = p\<lparr>names := butlast (names p)\<rparr>"

definition path_name :: "path \<Rightarrow> string" where
  "path_name p = (if names p = [] then [] else last (names p))"

definition path_stem :: "path \<Rightarrow> string" where
  "path_stem p =
     (let name = path_name p;
          k = length (takeWhile (\<lambda>c. c \<noteq> CHR ''.'') (rev name))
      in if CHR ''.'' \<in> set name \<and> 0 < k \<and> k + 1 < length name
         then take (length name - k - 1) name
         else name)"

text \<open>\<open>p / s\<close> for a string \<open>s\<close>: a string that starts at the root replaces \<open>p\<close>.\<close>

definition path_div :: "path \<Rightarrow> string \<Rightarrow> path" where
  "path_div p s = (if take 1 s = ''/'' then Path s else p\<lparr>names := names p @ names (Path s)\<rparr>)"

text \<open>
  \<open>p.exists()\<close>, where \<open>fs\<close> lists the paths that exist on disk as \<open>str\<close> prints
  them. The current directory and the root always exist.
\<close>

definition path_exists :: "string list \<Rightarrow> path \<Rightarrow> bool" where
  "path_exists fs p \<longleftrightarrow> names p = [] \<or> path_str p \<in> set fs"

text \<open>
  \<open>s.lower()\<close> on the letters A to Z. The code compares the result with \<open>"blends"\<close>
  only, and no other character has one of these six letters as its lower case.
\<close>

definition str_lower :: "string \<Rightarrow> string" where
  "str_lower s =
     map (\<lambda>c. case map_of (zip ''ABCDEFGHIJKLMNOPQRSTUVWXYZ'' ''abcdefghijklmnopqrstuvwxyz'') c of
                 None \<Rightarrow> c
               | Some l \<Rightarrow> l) s"

section \<open>Objects and the state of Blender\<close>

text \<open>
  An object has the properties that the operators read and write. \<open>matrix_world\<close> is the
  world matrix as Blender last evaluated it; location, rotation and scale are the
  properties it is evaluated from. The state holds \<open>bpy.data.filepath\<close> (the empty
  string while the file has never been saved), the paths that exist on disk,
  \<open>bpy.data.objects\<close> and \<open>bpy.data.materials\<close>, and the active object of the view
  layer. The calls of the glTF exporter are recorded with the file path and the addresses
  of the selected objects (\<open>use_selection=True\<close>). A report is recorded with its level
  and, where the code builds it, its message.
\<close>

type_synonym vec3 = "real \<times> real \<times> real"

type_synonym matrix = "real list list"

record object =
  obj_name :: string
  obj_type :: string
  select :: bool
  location :: vec3
  rotation_euler :: vec3
  scale :: vec3
  matrix_world :: matrix
  parent :: "nat option"
  hide_viewport :: bool
  hide_render :: bool
  empty_display_type :: string
  empty_display_size :: real
  users_collection :: "nat list"
  material_slots :: "nat option list"

datatype status = FINISHED | CANCELLED

record bpy =
  filepath :: string
  files :: "string list"
  objects :: "object option list"
  materials :: "material option list"
  active :: "nat option"
  exported :: "(string \<times> nat list) list"
  reports :: "(string \<times> string option) list"

text \<open>\<open>self.report({level}, message)\<close>\<close>

definition report :: "string \<Rightarrow> string option \<Rightarrow> bpy \<Rightarrow> bpy" where
  "report level message s = s\<lparr>reports := reports s @ [(level, message)]\<rparr>"

text \<open>
  \<^verbatim>\<open>
  def get_export_folder(blend_path):
      blend_path = Path(bpy.data.filepath)
      if not blend_path.exists():
          return False
      blend_dir = blend_path.parent
      export_dir = blend_dir.parent / "models" if blend_dir.name.lower() == "blends" else blend_dir
      export_dir.mkdir(parents=True, exist_ok=True)
      return export_dir

  def get_export_path(blend_path):
      return get_export_folder(blend_path) / Path(blend_path).stem
  \<close>
  The parameter \<open>blend_path\<close> of \<open>get_export_folder\<close> is overwritten before it is
  read. The operators ask only whether the path of the .blend file exists, and they ask
  before they create a directory: the directories that \<open>mkdir\<close> creates, and the
  failures of the file system (a missing permission, a file in the place of a
  directory), are outside the model. \<open>False / Path(...)\<close> raises a \<open>TypeError\<close>.
\<close>

definition get_export_folder :: "bpy \<Rightarrow> path option" where
  "get_export_folder s =
     (let blend_path = Path (filepath s)
      in if \<not> path_exists (files s) blend_path then None
         else
           (let blend_dir = path_parent blend_path;
                export_dir =
                  (if str_lower (path_name blend_dir) = ''blends''
                   then path_div (path_parent blend_dir) ''models''
                   else blend_dir)
            in Some export_dir))"

definition get_export_path :: "string \<Rightarrow> bpy \<Rightarrow> py_error + path" where
  "get_export_path blend_path s =
     (case get_export_folder s of
        None \<Rightarrow> Inl TypeError
      | Some folder \<Rightarrow> Inr (path_div folder (path_stem (Path blend_path))))"

text \<open>\<open>context.selected_objects\<close>, \<open>bpy.ops.object.select_all(action='DESELECT')\<close>, \<open>obj.select_set(v)\<close>\<close>

definition selected_objects :: "bpy \<Rightarrow> nat list" where
  "selected_objects s =
     filter (\<lambda>a. case objects s ! a of None \<Rightarrow> False | Some ob \<Rightarrow> select ob)
       [0..<length (objects s)]"

definition select_all_deselect :: "bpy \<Rightarrow> bpy" where
  "select_all_deselect s =
     s\<lparr>objects := map (map_option (\<lambda>ob. ob\<lparr>select := False\<rparr>)) (objects s)\<rparr>"

definition select_set :: "nat \<Rightarrow> bool \<Rightarrow> bpy \<Rightarrow> bpy" where
  "select_set a v s = s\<lparr>objects := heap_update (objects s) a (\<lambda>ob. ob\<lparr>select := v\<rparr>)\<rparr>"

text \<open>
  \<open>obj.matrix_world = m\<close>: Blender stores the matrix and derives location, rotation
  and scale from it. The decomposition is Blender's and is a parameter of the model.
\<close>

definition set_matrix_world :: "(matrix \<Rightarrow> vec3 \<times> vec3 \<times> vec3) \<Rightarrow> matrix \<Rightarrow> object \<Rightarrow> object" where
  "set_matrix_world decompose m ob =
     (case decompose m of
        (l, r, sc) \<Rightarrow> ob\<lparr>location := l, rotation_euler := r, scale := sc, matrix_world := m\<rparr>)"

text \<open>
  \<open>bpy.ops.export_scene.gltf(filepath=..., use_selection=True, ...)\<close>: the exporter
  writes the selected objects where their properties place them. Blender evaluates an
  assigned location, rotation or scale when the scene is next evaluated, which the
  exporter asks for: afterwards \<open>matrix_world\<close> of an object it exports is the matrix
  of the object's location, rotation and scale. That matrix is Blender's and is the
  parameter \<open>compose\<close> of the model. Relations through which the matrix of one object
  depends on another object (parents, constraints, drivers) are outside the model.
\<close>

definition evaluated :: "(vec3 \<times> vec3 \<times> vec3 \<Rightarrow> matrix) \<Rightarrow> object \<Rightarrow> object" where
  "evaluated compose ob =
     ob\<lparr>matrix_world := compose (location ob, rotation_euler ob, scale ob)\<rparr>"

definition export_scene_gltf :: "(vec3 \<times> vec3 \<times> vec3 \<Rightarrow> matrix) \<Rightarrow> string \<Rightarrow> bpy \<Rightarrow> bpy" where
  "export_scene_gltf compose glb_path s =
     s\<lparr>objects := map (map_option (\<lambda>ob. if select ob then evaluated compose ob else ob))
                      (objects s),
       exported := exported s @ [(glb_path, selected_objects s)]\<rparr>"

section \<open>SAPIENS_OT_export_parts.execute\<close>

text \<open>
  \<^verbatim>\<open>
  blend_path = Path(bpy.data.filepath)
  if not blend_path.exists():
      self.report({'ERROR'}, "File must be saved before exporting.")
      return {'CANCELLED'}
  export_root = get_export_folder(blend_path)
  if not export_root:
      self.report({'ERROR'}, "Failed to resolve export folder.")
      return {'CANCELLED'}
  export_root.mkdir(parents=True, exist_ok=True)
  original_selection = context.selected_objects.copy()
  original_active = context.view_layer.objects.active
  exported_models = []
  for obj in bpy.data.objects:
      if obj.type != 'MESH':
          continue
      model_name = self.get_model_name(obj.name)
      if model_name in exported_models:
          continue
      bpy.ops.object.select_all(action='DESELECT')
      cached_matrix = obj.matrix_world.copy()
      obj.select_set(True)
      context.view_layer.objects.active = obj
      exported_models.append(model_name)
      obj.location = (0.0, 0.0, 0.0)
      obj.rotation_euler = (0.0, 0.0, 0.0)
      obj.scale = (1.0, 1.0, 1.0)
      export_path = export_root / f"{model_name}.glb"
      bpy.ops.export_scene.gltf(filepath=str(export_path), export_format='GLB',
          use_selection=True, export_apply=True)
      obj.matrix_world = cached_matrix
  bpy.ops.object.select_all(action='DESELECT')
  for obj in original_selection:
      obj.select_set(True)
  context.view_layer.objects.active = original_active
  self.report({'INFO'}, f"Exported {exported_models} to '{export_path}'")
  return {'FINISHED'}
  \<close>
  The body of the first loop, for the object at address \<open>a\<close>, on the local variables
  \<open>exported_models\<close> and \<open>export_path\<close> (\<open>None\<close> while it is unbound) and the state.
\<close>

definition export_part ::
  "(vec3 \<times> vec3 \<times> vec3 \<Rightarrow> matrix) \<Rightarrow> (matrix \<Rightarrow> vec3 \<times> vec3 \<times> vec3) \<Rightarrow> path \<Rightarrow> nat \<Rightarrow>
   string list \<times> path option \<times> bpy \<Rightarrow> string list \<times> path option \<times> bpy" where
  "export_part compose decompose export_root a st =
     (case st of (exported_models, export_path, s) \<Rightarrow>
        (case heap_get (objects s) a of
           None \<Rightarrow> st
         | Some ob \<Rightarrow>
             if obj_type ob \<noteq> ''MESH'' then st
             else
               (let model_name = get_model_name (obj_name ob)
                in if model_name \<in> set exported_models then st
                   else
                     (let s1 = select_all_deselect s;
                          cached_matrix = matrix_world ob;
                          s2 = select_set a True s1;
                          s3 = s2\<lparr>active := Some a\<rparr>;
                          exported_models1 = exported_models @ [model_name];
                          s4 = s3\<lparr>objects := heap_update (objects s3) a
                                 (\<lambda>x. x\<lparr>location := (0, 0, 0), rotation_euler := (0, 0, 0),
                                         scale := (1, 1, 1)\<rparr>)\<rparr>;
                          export_path1 = path_div export_root (model_name @ ''.glb'');
                          s5 = export_scene_gltf compose (path_str export_path1) s4;
                          s6 = s5\<lparr>objects := heap_update (objects s5) a
                                 (set_matrix_world decompose cached_matrix)\<rparr>
                      in (exported_models1, Some export_path1, s6)))))"

fun export_parts_loop ::
  "(vec3 \<times> vec3 \<times> vec3 \<Rightarrow> matrix) \<Rightarrow> (matrix \<Rightarrow> vec3 \<times> vec3 \<times> vec3) \<Rightarrow> path \<Rightarrow> nat list \<Rightarrow>
   string list \<times> path option \<times> bpy \<Rightarrow> string list \<times> path option \<times> bpy" where
  "export_parts_loop compose decompose export_root [] st = st"
| "export_parts_loop compose decompose export_root (a # as) st =
     export_parts_loop compose decompose export_root as
       (export_part compose decompose export_root a st)"

text \<open>\<open>for obj in original_selection: obj.select_set(True)\<close>\<close>

fun select_each :: "nat list \<Rightarrow> bpy \<Rightarrow> bpy" where
  "select_each [] s = s"
| "select_each (a # as) s = select_each as (select_set a True s)"

text \<open>
  The last report reads \<open>export_path\<close>, which is unbound when the loop exported nothing:
  the operator then raises \<open>UnboundLocalError\<close>.
\<close>

definition export_parts_execute ::
  "(vec3 \<times> vec3 \<times> vec3 \<Rightarrow> matrix) \<Rightarrow> (matrix \<Rightarrow> vec3 \<times> vec3 \<times> vec3) \<Rightarrow> bpy \<Rightarrow>
   py_error + status \<times> bpy" where
  "export_parts_execute compose decompose s =
     (let blend_path = Path (filepath s)
      in if \<not> path_exists (files s) blend_path then
        Inr (CANCELLED, report ''ERROR'' (Some ''File must be saved before exporting.'') s)
      else
        (case get_export_folder s of
           None \<Rightarrow> Inr (CANCELLED, report ''ERROR'' (Some ''Failed to resolve export folder.'') s)
         | Some export_root \<Rightarrow>
             (let original_selection = selected_objects s;
                  original_active = active s
              in case export_parts_loop compose decompose export_root (live (objects s))
                        ([], None, s) of
                   (exported_models, export_path, s1) \<Rightarrow>
                     (let s2 = select_all_deselect s1;
                          s3 = select_each original_selection s2;
                          s4 = s3\<lparr>active := original_active\<rparr>
                      in case export_path of
                           None \<Rightarrow> Inl UnboundLocalError
                         | Some p \<Rightarrow> Inr (FINISHED, report ''INFO'' None s4)))))"

section \<open>Names of objects\<close>

text \<open>
  \<open>obj.name = nm\<close> and \<open>bpy.data.objects.new(nm, None)\<close> give the object the name
  \<open>nm\<close> made unique among the names of the other objects. A new object without data
  is an empty with Blender's defaults, linked to no collection.
\<close>

definition object_names :: "object option list \<Rightarrow> string list" where
  "object_names h = map obj_name (List.map_filter id h)"

definition set_obj_name :: "nat \<Rightarrow> string \<Rightarrow> bpy \<Rightarrow> bpy" where
  "set_obj_name a nm s =
     s\<lparr>objects := heap_update (objects s) a
          (\<lambda>ob. ob\<lparr>obj_name := unique_name (object_names (heap_remove (objects s) a)) nm\<rparr>)\<rparr>"

definition new_object :: "string \<Rightarrow> object" where
  "new_object nm =
     \<lparr>obj_name = nm, obj_type = ''EMPTY'', select = False,
      location = (0, 0, 0), rotation_euler = (0, 0, 0), scale = (1, 1, 1),
      matrix_world = [[1, 0, 0, 0], [0, 1, 0, 0], [0, 0, 1, 0], [0, 0, 0, 1]],
      parent = None, hide_viewport = False, hide_render = False,
      empty_display_type = ''PLAIN_AXES'', empty_display_size = 1,
      users_collection = [], material_slots = []\<rparr>"

definition objects_new :: "string \<Rightarrow> bpy \<Rightarrow> nat \<times> bpy" where
  "objects_new nm s =
     (case heap_new (objects s) (new_object (unique_name (object_names (objects s)) nm)) of
        (a, h) \<Rightarrow> (a, s\<lparr>objects := h\<rparr>))"

text \<open>
  \<open>bpy.data.objects.remove(obj)\<close>: the object is gone, and is no longer the active
  object.
\<close>

definition objects_remove :: "nat \<Rightarrow> bpy \<Rightarrow> bpy" where
  "objects_remove a s =
     s\<lparr>objects := heap_remove (objects s) a,
       active := (if active s = Some a then None else active s)\<rparr>"

section \<open>SAPIENS_OT_export_empties\<close>

text \<open>\<open>str(n)\<close> for a natural number.\<close>

fun str_nat_digits :: "nat \<Rightarrow> nat \<Rightarrow> string" where
  "str_nat_digits 0 n = []"
| "str_nat_digits (Suc fuel) n =
     (if n < 10 then [digit_char n]
      else str_nat_digits fuel (n div 10) @ [digit_char (n mod 10)])"

definition str_nat :: "nat \<Rightarrow> string" where
  "str_nat n = str_nat_digits (Suc n) n"

text \<open>
  \<^verbatim>\<open>
  def get_empty_name(self, mesh_name: str, model_counts: dict):
      if "." in mesh_name:
          mesh_name = mesh_name.split(".")[0]
      if "_" in mesh_name:
          mesh_name = mesh_name.split("_")[1]
      index = model_counts.get(mesh_name, 0) + 1
      model_counts[mesh_name] = index
      return f"{mesh_name}_{str(index)}"
  \<close>
  The result is the name with the updated \<open>model_counts\<close>. A name that contains \<open>"_"\<close>
  splits into two segments at least, so the index \<open>[1]\<close> is in range.
\<close>

definition get_empty_name :: "string \<Rightarrow> (string \<times> nat) list \<Rightarrow> string \<times> (string \<times> nat) list" where
  "get_empty_name mesh_name model_counts =
     (let mesh_name1 =
            (if CHR ''.'' \<in> set mesh_name then hd (split_str (CHR ''.'') mesh_name)
             else mesh_name);
          mesh_name2 =
            (if CHR ''_'' \<in> set mesh_name1 then split_str (CHR ''_'') mesh_name1 ! 1
             else mesh_name1);
          idx = (case map_of model_counts mesh_name2 of None \<Rightarrow> 0 | Some n \<Rightarrow> n) + 1
      in (mesh_name2 @ ''_'' @ str_nat idx, AList.update mesh_name2 idx model_counts))"

text \<open>
  \<^verbatim>\<open>
  def execute(self, context):
      export_path = get_export_path(bpy.data.filepath)
      if not export_path:
          return {'CANCELLED'}
      replacements = []
      new_empties = []
      counts = {}
      for obj in bpy.data.objects:
          if obj.type == 'MESH':
              original_name = obj.name
              renamed_name = f"{original_name}_original"
              obj.name = renamed_name
              empty = bpy.data.objects.new(self.get_empty_name(original_name, counts), None)
              empty.empty_display_type = 'PLAIN_AXES'
              empty.empty_display_size = 0.5
              empty.matrix_world = obj.matrix_world
              empty.parent = obj.parent
              empty.hide_viewport = obj.hide_viewport
              empty.hide_render = obj.hide_render
              for collection in obj.users_collection:
                  collection.objects.link(empty)
              replacements.append((obj, empty, original_name))
              new_empties.append(empty)
      bpy.ops.object.select_all(action='DESELECT')
      for obj in bpy.data.objects:
          if obj.type in {'EMPTY', 'CAMERA'}:
              obj.select_set(True)
      context.view_layer.objects.active = new_empties[0] if new_empties else None
      bpy.ops.export_scene.gltf(filepath=str(export_path), export_format='GLB',
          use_selection=True, export_apply=True, export_materials='PLACEHOLDER',
          export_cameras=True)
      for mesh_obj, empty, original_name in replacements:
          for collection in empty.users_collection:
              collection.objects.unlink(empty)
          bpy.data.objects.remove(empty)
          mesh_obj.name = original_name
      self.report({'INFO'}, f"Exported to {export_path}")
      return {'FINISHED'}
  \<close>
  The first loop visits the objects that exist when it starts; the local variable
  \<open>empty\<close> is written \<open>empty1\<close>. A \<open>Path\<close> is true, so
  \<open>if not export_path\<close> never cancels; on a .blend file that does not exist
  \<open>get_export_path\<close> raises.
\<close>

type_synonym replacement = "nat \<times> nat \<times> string"

definition replace_mesh ::
  "(matrix \<Rightarrow> vec3 \<times> vec3 \<times> vec3) \<Rightarrow> nat \<Rightarrow>
   replacement list \<times> nat list \<times> (string \<times> nat) list \<times> bpy \<Rightarrow>
   replacement list \<times> nat list \<times> (string \<times> nat) list \<times> bpy" where
  "replace_mesh decompose a st =
     (case st of (replacements, new_empties, counts, s) \<Rightarrow>
        (case heap_get (objects s) a of
           None \<Rightarrow> st
         | Some ob \<Rightarrow>
             if obj_type ob = ''MESH'' then
               (let original_name = obj_name ob;
                    renamed_name = original_name @ ''_original'';
                    s1 = set_obj_name a renamed_name s
                in case get_empty_name original_name counts of
                     (empty_name, counts1) \<Rightarrow>
                       (case objects_new empty_name s1 of
                          (empty1, s2) \<Rightarrow>
                            (let s3 = s2\<lparr>objects := heap_update (objects s2) empty1
                                   (\<lambda>e. (set_matrix_world decompose (matrix_world ob)
                                           (e\<lparr>empty_display_type := ''PLAIN_AXES'',
                                              empty_display_size := 1 / 2\<rparr>))
                                         \<lparr>parent := parent ob,
                                          hide_viewport := hide_viewport ob,
                                          hide_render := hide_render ob,
                                          users_collection := users_collection e
                                            @ users_collection ob\<rparr>)\<rparr>
                             in (replacements @ [(a, empty1, original_name)],
                                 new_empties @ [empty1], counts1, s3))))
             else st))"

fun replace_meshes ::
  "(matrix \<Rightarrow> vec3 \<times> vec3 \<times> vec3) \<Rightarrow> nat list \<Rightarrow>
   replacement list \<times> nat list \<times> (string \<times> nat) list \<times> bpy \<Rightarrow>
   replacement list \<times> nat list \<times> (string \<times> nat) list \<times> bpy" where
  "replace_meshes decompose [] st = st"
| "replace_meshes decompose (a # as) st = replace_meshes decompose as (replace_mesh decompose a st)"

text \<open>\<open>for obj in bpy.data.objects: if obj.type in {'EMPTY', 'CAMERA'}: obj.select_set(True)\<close>\<close>

fun select_empties_cameras :: "nat list \<Rightarrow> bpy \<Rightarrow> bpy" where
  "select_empties_cameras [] s = s"
| "select_empties_cameras (a # as) s =
     select_empties_cameras as
       (case heap_get (objects s) a of
          None \<Rightarrow> s
        | Some ob \<Rightarrow>
            if obj_type ob = ''EMPTY'' \<or> obj_type ob = ''CAMERA'' then select_set a True s
            else s)"

text \<open>The loop that restores the scene.\<close>

fun restore_scene :: "replacement list \<Rightarrow> bpy \<Rightarrow> bpy" where
  "restore_scene [] s = s"
| "restore_scene ((mesh_obj, empty1, original_name) # rest) s =
     (let s1 = s\<lparr>objects := heap_update (objects s) empty1 (\<lambda>e. e\<lparr>users_collection := []\<rparr>)\<rparr>;
          s2 = objects_remove empty1 s1;
          s3 = set_obj_name mesh_obj original_name s2
      in restore_scene rest s3)"

definition export_empties_execute ::
  "(vec3 \<times> vec3 \<times> vec3 \<Rightarrow> matrix) \<Rightarrow> (matrix \<Rightarrow> vec3 \<times> vec3 \<times> vec3) \<Rightarrow> bpy \<Rightarrow>
   py_error + status \<times> bpy" where
  "export_empties_execute compose decompose s =
     (case get_export_path (filepath s) s of
        Inl e \<Rightarrow> Inl e
      | Inr export_path \<Rightarrow>
          (case replace_meshes decompose (live (objects s)) ([], [], [], s) of
             (replacements, new_empties, counts, s1) \<Rightarrow>
               (let s2 = select_all_deselect s1;
                    s3 = select_empties_cameras (live (objects s2)) s2;
                    s4 = s3\<lparr>active := (if new_empties \<noteq> [] then Some (hd new_empties) else None)\<rparr>;
                    s5 = export_scene_gltf compose (path_str export_path) s4;
                    s6 = restore_scene replacements s5
                in Inr (FINISHED,
                     report ''INFO'' (Some (''Exported to '' @ path_str export_path)) s6))))"

section \<open>SAPIENS_OT_remove_duplicate_materials\<close>

text \<open>
  \<open>re.compile(r"(.*)\.(\d{3})$").match(name)\<close>: the result is \<open>match.group(1)\<close>, or
  \<open>None\<close> when the name does not match. The name matches when it is a base without a
  newline, a dot and three digits; \<open>$\<close> also matches before a newline that ends the
  name.
\<close>

definition is_digit :: "char \<Rightarrow> bool" where
  "is_digit c = (c \<in> set ''0123456789'')"

definition suffix_match :: "string \<Rightarrow> string option" where
  "suffix_match nm =
     (let body = (if nm \<noteq> [] \<and> last nm = CHR 0x0A then butlast nm else nm);
          n = length body
      in if 4 \<le> n \<and> body ! (n - 4) = CHR ''.'' \<and> is_digit (body ! (n - 3))
            \<and> is_digit (body ! (n - 2)) \<and> is_digit (body ! (n - 1))
            \<and> CHR 0x0A \<notin> set (take (n - 4) body)
         then Some (take (n - 4) body) else None)"

text \<open>
  \<open>mat.name = nm\<close>, and \<open>bpy.data.materials.remove(mat)\<close>, which also empties the
  material slots that still refer to the material.
\<close>

definition set_mat_name :: "nat \<Rightarrow> string \<Rightarrow> bpy \<Rightarrow> bpy" where
  "set_mat_name a nm s =
     s\<lparr>materials := heap_update (materials s) a
          (\<lambda>m. m\<lparr>mat_name := unique_name (material_names (heap_remove (materials s) a)) nm\<rparr>)\<rparr>"

definition materials_remove :: "nat \<Rightarrow> bpy \<Rightarrow> bpy" where
  "materials_remove a s =
     s\<lparr>materials := heap_remove (materials s) a,
       objects := map (map_option (\<lambda>ob. ob\<lparr>material_slots :=
                    map (\<lambda>slot. if slot = Some a then None else slot) (material_slots ob)\<rparr>))
                    (objects s)\<rparr>"

text \<open>
  \<^verbatim>\<open>
  for obj in bpy.data.objects:
      if obj.type == 'MESH':
          for slot in obj.material_slots:
              if slot.material == mat:
                  slot.material = base_mat
  \<close>
\<close>

definition replace_users :: "nat \<Rightarrow> nat \<Rightarrow> bpy \<Rightarrow> bpy" where
  "replace_users mat base_mat s =
     s\<lparr>objects := map (map_option (\<lambda>ob.
          if obj_type ob = ''MESH''
          then ob\<lparr>material_slots :=
                 map (\<lambda>slot. if slot = Some mat then Some base_mat else slot) (material_slots ob)\<rparr>
          else ob)) (objects s)\<rparr>"

text \<open>
  \<^verbatim>\<open>
  def execute(self, context):
      suffix_pattern = re.compile(r"(.*)\.(\d{3})$")
      renamed_materials = {}
      for mat in list(bpy.data.materials):  # Avoid modifying list during iteration
          match = suffix_pattern.match(mat.name)
          if match:
              base_name = match.group(1)
              base_mat = bpy.data.materials.get(base_name)
              if base_mat:
                  [the loop above]
                  renamed_materials[mat.name] = f"Replaced with '{base_name}' and removed"
                  bpy.data.materials.remove(mat)
              else:
                  if not bpy.data.materials.get(base_name):
                      mat.name = base_name
                      renamed_materials[mat.name] = "Renamed (no original existed)"
                  else:
                      renamed_materials[mat.name] = "Name conflict; not renamed"
      self.report({'INFO'}, f"Processed {len(renamed_materials)} materials.")
      return {'FINISHED'}
  \<close>
  The body of the loop for the material at address \<open>a\<close>.
\<close>

definition process_material ::
  "nat \<Rightarrow> (string \<times> string) list \<times> bpy \<Rightarrow> (string \<times> string) list \<times> bpy" where
  "process_material a st =
     (case st of (renamed_materials, s) \<Rightarrow>
        (case heap_get (materials s) a of
           None \<Rightarrow> st
         | Some mat \<Rightarrow>
             (case suffix_match (mat_name mat) of
                None \<Rightarrow> st
              | Some base_name \<Rightarrow>
                  (case materials_get (materials s) base_name of
                     Some base_mat \<Rightarrow>
                       (let s1 = replace_users a base_mat s;
                            renamed1 = AList.update (mat_name mat)
                              (''Replaced with '' @ [CHR 0x27] @ base_name @ [CHR 0x27]
                                 @ '' and removed'') renamed_materials;
                            s2 = materials_remove a s1
                        in (renamed1, s2))
                   | None \<Rightarrow>
                       if materials_get (materials s) base_name = None then
                         (let s1 = set_mat_name a base_name s;
                              nm1 = (case heap_get (materials s1) a of
                                       None \<Rightarrow> base_name | Some m \<Rightarrow> mat_name m)
                          in (AList.update nm1 ''Renamed (no original existed)''
                                renamed_materials, s1))
                       else
                         (AList.update (mat_name mat) ''Name conflict; not renamed''
                            renamed_materials, s)))))"

fun process_materials ::
  "nat list \<Rightarrow> (string \<times> string) list \<times> bpy \<Rightarrow> (string \<times> string) list \<times> bpy" where
  "process_materials [] st = st"
| "process_materials (a # as) st = process_materials as (process_material a st)"

definition remove_duplicate_materials_execute :: "bpy \<Rightarrow> status \<times> bpy" where
  "remove_duplicate_materials_execute s =
     (case process_materials (live (materials s)) ([], s) of
        (renamed_materials, s1) \<Rightarrow>
          (FINISHED,
           report ''INFO''
             (Some (''Processed '' @ str_nat (length renamed_materials) @ '' materials.'')) s1))"

section \<open>Example data\<close>

definition bone_record :: "(string \<times> pyval) list" where
  "bone_record =
     [(''identifier'', PyStr ''bone''),
      (''color'', PyList [PyNum (1 / 2), PyNum (1 / 4), PyNum 1]),
      (''metal'', PyNum 0),
      (''roughness'', PyNum (1 / 2))]"

definition bone_bsdf :: node where
  "bone_bsdf = \<lparr>ntype = ''BSDF_PRINCIPLED'', in_base_color = (1 / 2, 1 / 4, 1, 1),
                 in_metallic = 0, in_roughness = 1 / 2\<rparr>"

definition gold_bsdf :: node where
  "gold_bsdf = \<lparr>ntype = ''BSDF_PRINCIPLED'', in_base_color = (1, 4 / 5, 0, 1),
                 in_metallic = 1, in_roughness = 1 / 5\<rparr>"

definition bone_material :: material where
  "bone_material = \<lparr>mat_name = ''bone'', use_nodes = True,
                     node_tree = Some [default_output, bone_bsdf, gold_bsdf]\<rparr>"

text \<open>A material whose node tree is kept while the material does not use nodes.\<close>

definition bone_unused_nodes :: material where
  "bone_unused_nodes = bone_material\<lparr>use_nodes := False\<rparr>"

definition bone_no_nodes :: material where
  "bone_no_nodes = \<lparr>mat_name = ''bone'', use_nodes = False, node_tree = None\<rparr>"

definition bone_empty_tree :: material where
  "bone_empty_tree = \<lparr>mat_name = ''bone'', use_nodes = False, node_tree = Some []\<rparr>"

text \<open>
  The matrices of the examples translate and scale along the axes and do not rotate:
  their composition from a location and a scale, and their decomposition.
\<close>

definition compose_unrotated :: "vec3 \<times> vec3 \<times> vec3 \<Rightarrow> matrix" where
  "compose_unrotated t =
     (case t of
        ((lx, ly, lz), r, (sx, sy, sz)) \<Rightarrow>
          [[sx, 0, 0, lx], [0, sy, 0, ly], [0, 0, sz, lz], [0, 0, 0, 1]])"

definition decompose_unrotated :: "matrix \<Rightarrow> vec3 \<times> vec3 \<times> vec3" where
  "decompose_unrotated m =
     ((m ! 0 ! 3, m ! 1 ! 3, m ! 2 ! 3), (0, 0, 0), (m ! 0 ! 0, m ! 1 ! 1, m ! 2 ! 2))"

definition mesh_object :: "string \<Rightarrow> object" where
  "mesh_object nm = (new_object nm)\<lparr>obj_type := ''MESH'', users_collection := [0]\<rparr>"

text \<open>
  A saved scene: a chair away from the origin, a second mesh of the same model and a
  camera, which is selected and is the active object.
\<close>

definition chair :: object where
  "chair = (mesh_object ''chair'')\<lparr>location := (1, 2, 3),
     matrix_world := [[1, 0, 0, 1], [0, 1, 0, 2], [0, 0, 1, 3], [0, 0, 0, 1]]\<rparr>"

definition camera :: object where
  "camera = (new_object ''icon_camera2'')\<lparr>obj_type := ''CAMERA'', select := True\<rparr>"

definition chair_scene :: bpy where
  "chair_scene =
     \<lparr>filepath = ''/blends/chair.blend'', files = [''/blends'', ''/blends/chair.blend''],
      objects = [Some chair, Some (mesh_object ''chair_leg.001''), Some camera],
      materials = [], active = Some 2, exported = [], reports = []\<rparr>"

text \<open>A saved scene with two meshes named after the convention of the empties.\<close>

definition seat_scene :: bpy where
  "seat_scene =
     \<lparr>filepath = ''/blends/chair.blend'', files = [''/blends'', ''/blends/chair.blend''],
      objects = [Some (mesh_object ''seat_1''), Some (mesh_object ''x_seat'')],
      materials = [], active = None, exported = [], reports = []\<rparr>"

text \<open>Materials without nodes, and a scene whose only material has two suffixes.\<close>

definition plain_material :: "string \<Rightarrow> material" where
  "plain_material nm = \<lparr>mat_name = nm, use_nodes = False, node_tree = None\<rparr>"

definition suffix_scene :: bpy where
  "suffix_scene = seat_scene\<lparr>materials := [Some (plain_material ''bone.001.002'')]\<rparr>"

text \<open>A material file that holds two records of the same identifier.\<close>

definition old_bone :: pyval where
  "old_bone =
     PyDict [(''identifier'', PyStr ''bone''),
             (''color'', PyList [PyNum 0, PyNum 0, PyNum 0]),
             (''metal'', PyNum 1),
             (''roughness'', PyNum 1)]"

definition old_file :: pyval where
  "old_file =
     PyDict [(''hammerstone:global_definitions'',
              PyDict [(''hs_materials'', PyList [old_bone, old_bone])])]"

text \<open>
  The scene when the loop of Export Parts ends, with the chair selected and active, and
  after Export Parts: one export, one report, nothing else changed.
\<close>

definition chair_scene_loop :: bpy where
  "chair_scene_loop =
     chair_scene\<lparr>objects := [Some (chair\<lparr>select := True\<rparr>), Some (mesh_object ''chair_leg.001''),
                             Some (camera\<lparr>select := False\<rparr>)],
                 active := Some 0, exported := [(''/models/chair.glb'', [0])]\<rparr>"

definition chair_scene_exported :: bpy where
  "chair_scene_exported =
     chair_scene\<lparr>exported := [(''/models/chair.glb'', [0])], reports := [(''INFO'', None)]\<rparr>"

text \<open>
  The scene of the chair in a file that has never been saved, and what Export Parts
  makes of it.
\<close>

definition unsaved_scene :: bpy where
  "unsaved_scene = chair_scene\<lparr>filepath := [], files := []\<rparr>"

definition unsaved_scene_loop :: bpy where
  "unsaved_scene_loop =
     chair_scene_loop\<lparr>filepath := [], files := [], exported := [(''chair.glb'', [0])]\<rparr>"

definition unsaved_scene_exported :: bpy where
  "unsaved_scene_exported =
     unsaved_scene\<lparr>exported := [(''chair.glb'', [0])], reports := [(''INFO'', None)]\<rparr>"

section \<open>The invariant of Export Parts\<close>

text \<open>
  While Export Parts runs, an object differs from what it was at the start in its
  selection flag at most, or it is a mesh and differs in that flag and in the location,
  rotation and scale that Blender derives from the unchanged world matrix.
\<close>

definition restored :: "(matrix \<Rightarrow> vec3 \<times> vec3 \<times> vec3) \<Rightarrow> object \<Rightarrow> object \<Rightarrow> bool" where
  "restored decompose ob0 ob \<longleftrightarrow>
     ob\<lparr>select := select ob0\<rparr> = ob0
     \<or> obj_type ob0 = ''MESH''
       \<and> ob\<lparr>select := select ob0\<rparr> = set_matrix_world decompose (matrix_world ob0) ob0"

definition same_scene :: "(matrix \<Rightarrow> vec3 \<times> vec3 \<times> vec3) \<Rightarrow> bpy \<Rightarrow> bpy \<Rightarrow> bool" where
  "same_scene d s0 s \<longleftrightarrow> list_all2 (rel_option (restored d)) (objects s0) (objects s)"

text \<open>A mesh with three material slots, and the materials \<open>bone.001\<close> and \<open>bone\<close>.\<close>

definition bone_scene :: bpy where
  "bone_scene =
     seat_scene\<lparr>objects := [Some ((mesh_object ''seat_1'')\<lparr>material_slots := [Some 0, Some 1, None]\<rparr>)],
                materials := [Some (plain_material ''bone.001''), Some (plain_material ''bone'')]\<rparr>"

definition bone_scene_cleaned :: bpy where
  "bone_scene_cleaned =
     bone_scene\<lparr>objects := [Some ((mesh_object ''seat_1'')\<lparr>material_slots := [Some 1, Some 1, None]\<rparr>)],
                materials := [None, Some (plain_material ''bone'')],
                reports := [(''INFO'', Some ''Processed 1 materials.'')]\<rparr>"

text \<open>
  The scene of the two seats while Export Empties runs: after the first loop, and after
  the selection and the export.
\<close>

definition empty_of :: "string \<Rightarrow> object" where
  "empty_of nm = (new_object nm)\<lparr>empty_display_size := 1 / 2, users_collection := [0]\<rparr>"

definition seat_scene_replaced :: bpy where
  "seat_scene_replaced =
     seat_scene\<lparr>objects := [Some (mesh_object ''seat_1_original''),
                            Some (mesh_object ''x_seat_original''),
                            Some (empty_of ''1_1''), Some (empty_of ''seat_1'')]\<rparr>"

definition seat_scene_selected :: bpy where
  "seat_scene_selected =
     seat_scene\<lparr>objects := [Some (mesh_object ''seat_1_original''),
                            Some (mesh_object ''x_seat_original''),
                            Some ((empty_of ''1_1'')\<lparr>select := True\<rparr>),
                            Some ((empty_of ''seat_1'')\<lparr>select := True\<rparr>)],
                active := Some 2, exported := [(''/models/chair'', [2, 3])]\<rparr>"

text \<open>The scene of the two seats after Export Empties.\<close>

definition seat_scene_exported :: bpy where
  "seat_scene_exported =
     seat_scene\<lparr>objects := [Some (mesh_object ''seat_1.001''), Some (mesh_object ''x_seat''),
                            None, None],
                exported := [(''/models/chair'', [2, 3])],
                reports := [(''INFO'', Some ''Exported to /models/chair'')]\<rparr>"

section \<open>The invariant of Remove Duplicates\<close>

text \<open>
  What removing the material at \<open>a\<close> in favour of \<open>bm\<close> does to a material slot of an
  object of type \<open>ty\<close>: a slot of a mesh that refers to \<open>a\<close> refers to \<open>bm\<close>, a slot of
  another object that refers to \<open>a\<close> is emptied.
\<close>

definition step_slot :: "nat \<Rightarrow> nat \<Rightarrow> string \<Rightarrow> nat option \<Rightarrow> nat option" where
  "step_slot a bm ty slot = (if slot = Some a then (if ty = ''MESH'' then Some bm else None) else slot)"

text \<open>
  What the operator makes of a material: one whose name does not match is as it was,
  one whose name matches with the base \<open>b\<close> is removed or is renamed to \<open>b\<close>.
\<close>

definition outcome :: "material option \<Rightarrow> material option \<Rightarrow> bool" where
  "outcome m0 m1 =
     (case m0 of
        None \<Rightarrow> m1 = None
      | Some m \<Rightarrow>
          (case suffix_match (mat_name m) of
             None \<Rightarrow> m1 = Some m
           | Some b \<Rightarrow> m1 = None \<or> m1 = Some (m\<lparr>mat_name := b\<rparr>)))"

text \<open>
  An object differs from what it was in its material slots at most, and a slot of a mesh
  that referred to a material refers to a material.
\<close>

definition slots_kept ::
  "material option list \<Rightarrow> material option list \<Rightarrow> object \<Rightarrow> object \<Rightarrow> bool" where
  "slots_kept mats0 mats ob0 ob \<longleftrightarrow>
     ob\<lparr>material_slots := material_slots ob0\<rparr> = ob0
     \<and> length (material_slots ob) = length (material_slots ob0)
     \<and> (obj_type ob0 = ''MESH'' \<longrightarrow>
          (\<forall>i<length (material_slots ob0). \<forall>b.
              material_slots ob0 ! i = Some b \<and> heap_get mats0 b \<noteq> None \<longrightarrow>
              (\<exists>b'. material_slots ob ! i = Some b' \<and> heap_get mats b' \<noteq> None)))"

text \<open>The invariant of the loop, \<open>seen\<close> being the addresses it has visited.\<close>

definition dup_inv :: "bpy \<Rightarrow> nat list \<Rightarrow> bpy \<Rightarrow> bool" where
  "dup_inv s0 seen s \<longleftrightarrow>
     length (materials s) = length (materials s0)
     \<and> (\<forall>a<length (materials s0).
           if a \<in> set seen then outcome (materials s0 ! a) (materials s ! a)
           else materials s ! a = materials s0 ! a)
     \<and> list_all2 (rel_option (slots_kept (materials s0) (materials s))) (objects s0) (objects s)"

section \<open>The invariant of the index\<close>

text \<open>
  The keys of the index are distinct, as those of a dictionary are, and a value that
  has an identifier is stored under that identifier.
\<close>

definition keyed :: "index \<Rightarrow> bool" where
  "keyed idx \<longleftrightarrow>
     distinct (map fst idx) \<and>
     (\<forall>k v. map_of idx k = Some v \<longrightarrow> identifier_of v = None \<or> identifier_of v = Some k)"

section \<open>Properties of the string functions\<close>

lemma split_str_not_Nil: "split_str c s \<noteq> []"
  by (induction s) (auto split: list.splits)

lemma hd_split_str: "hd (split_str c s) = takeWhile (\<lambda>x. x \<noteq> c) s"
proof (induction s)
  case Nil
  show ?case by simp
next
  case (Cons x xs)
  show ?case
  proof (cases "split_str c xs")
    case Nil
    with split_str_not_Nil show ?thesis by blast
  next
    case (Cons seg segs)
    with Cons.IH show ?thesis by auto
  qed
qed

lemma length_split_str: "length (split_str c s) = Suc (length (filter (\<lambda>x. x = c) s))"
proof (induction s)
  case Nil
  show ?case by simp
next
  case (Cons x xs)
  then show ?case by (cases "split_str c xs") auto
qed

lemma takeWhile_absent: "c \<notin> set s \<Longrightarrow> takeWhile (\<lambda>x. x \<noteq> c) s = s"
  by (induction s) auto

lemma takeWhile_twice:
  "takeWhile (\<lambda>x. x \<noteq> d) (takeWhile (\<lambda>x. x \<noteq> c) s) = takeWhile (\<lambda>x. x \<noteq> c \<and> x \<noteq> d) s"
  by (induction s) auto

lemma get_model_name_takeWhile:
  "get_model_name s = takeWhile (\<lambda>x. x \<noteq> CHR ''.'' \<and> x \<noteq> CHR ''_'') s"
proof -
  have a: "(if CHR ''.'' \<in> set s then hd (split_str (CHR ''.'') s) else s)
      = takeWhile (\<lambda>x. x \<noteq> CHR ''.'') s"
    by (simp add: hd_split_str takeWhile_absent)
  have b: "(if CHR ''_'' \<in> set t then hd (split_str (CHR ''_'') t) else t)
      = takeWhile (\<lambda>x. x \<noteq> CHR ''_'') t" for t
    by (simp add: hd_split_str takeWhile_absent)
  show ?thesis
    unfolding get_model_name_def Let_def a b by (rule takeWhile_twice)
qed

text \<open>
  C2. For every object name, \<open>get_model_name\<close> returns the prefix of the name that ends
  before the first occurrence of \<open>"."\<close> or \<open>"_"\<close> (the longest prefix with neither
  character), and the result contains neither \<open>"."\<close> nor \<open>"_"\<close>.
\<close>

theorem get_model_name_prefix:
  "get_model_name s = takeWhile (\<lambda>x. x \<noteq> CHR ''.'' \<and> x \<noteq> CHR ''_'') s
   \<and> CHR ''.'' \<notin> set (get_model_name s) \<and> CHR ''_'' \<notin> set (get_model_name s)"
proof -
  have "\<forall>x \<in> set (takeWhile (\<lambda>x. x \<noteq> CHR ''.'' \<and> x \<noteq> CHR ''_'') s).
          x \<noteq> CHR ''.'' \<and> x \<noteq> CHR ''_''"
    using set_takeWhileD by fastforce
  then show ?thesis
    unfolding get_model_name_takeWhile by blast
qed

theorem get_model_name_prefix_witness:
  "get_model_name ''chair_leg.001'' = ''chair''
   \<and> CHR ''.'' \<notin> set (get_model_name ''chair_leg.001'')
   \<and> CHR ''_'' \<notin> set (get_model_name ''chair_leg.001'')"
  using get_model_name_prefix [of "''chair_leg.001''"] by simp

section \<open>Properties of material_to_json\<close>

lemmas material_eval =
  round_trip_def json_to_material_def dict_get_def materials_get_def materials_new_def
  set_use_nodes_True_def heap_update_def heap_get_def heap_put_def heap_new_def
  material_names_def rebuild_nodes_def py_iter_def assign_rgba_def assign_float_def
  material_to_json_def mat_data_def default_bsdf_def default_output_def round3_def
  round_half_even_def unique_name_def Let_def bone_record_def bone_bsdf_def gold_bsdf_def
  bone_material_def bone_unused_nodes_def bone_no_nodes_def bone_empty_tree_def
  List.map_filter_def

lemma find_bsdf_append:
  "\<forall>n \<in> set pre. ntype n \<noteq> ''BSDF_PRINCIPLED'' \<Longrightarrow> ntype b = ''BSDF_PRINCIPLED'' \<Longrightarrow>
   find_bsdf (pre @ b # post) = Some b"
  by (induction pre) auto

lemma find_bsdf_None: "find_bsdf ns = None \<longleftrightarrow> (\<forall>n \<in> set ns. ntype n \<noteq> ''BSDF_PRINCIPLED'')"
  by (induction ns) auto

text \<open>
  C1. The round trip of a record through \<open>json_to_material\<close> and \<open>material_to_json\<close>
  gives the record back when \<open>json_to_material\<close> creates the material: that path sets
  \<open>use_nodes\<close>. The path that finds a material of the name does not: on a material that
  does not use nodes and has a node tree the round trip gives \<open>None\<close>, and on one that
  has no node tree \<open>json_to_material\<close> raises at \<open>material.node_tree.nodes\<close>.
\<close>

theorem round_trip_existing_material_without_nodes:
  "round_trip bone_record [] = Inr (PyDict bone_record)
   \<and> round_trip bone_record [Some bone_empty_tree] = Inr PyNone
   \<and> round_trip bone_record [Some bone_no_nodes] = Inl AttributeError"
  by (simp add: material_eval)

text \<open>
  C3, as the claim states it, fails: the record of the example material carries five
  floating-point values, not six.
\<close>

theorem material_record_six_floats_counterexample:
  "material_to_json (Some bone_material) = Inr (PyDict bone_record)
   \<and> count_floats (PyDict bone_record) \<noteq> 6"
  by (simp add: material_eval)

text \<open>
  C3, amended. Every record that \<open>material_to_json\<close> returns carries exactly five
  floating-point values: the three colour components (the alpha of \<open>Base Color\<close> is cut
  off by \<open>[:3]\<close>), \<open>metal\<close> and \<open>roughness\<close>.
\<close>

theorem material_record_five_floats:
  "material_to_json material = Inr (PyDict d) \<Longrightarrow> count_floats (PyDict d) = 5"
  by (auto simp: material_to_json_def mat_data_def split: option.splits if_splits prod.splits)

theorem material_record_five_floats_witness:
  "material_to_json (Some bone_material) = Inr (PyDict bone_record)
   \<and> count_floats (PyDict bone_record) = 5"
  using material_record_five_floats [of "Some bone_material" bone_record]
  by (simp add: material_eval)

text \<open>
  C6, as the claim states it, fails: a material can keep a node tree with two Principled
  BSDF nodes while it does not use nodes, and \<open>material_to_json\<close> then returns \<open>None\<close>
  and extracts nothing from the first of them.
\<close>

theorem first_bsdf_unused_nodes_counterexample:
  "node_tree bone_unused_nodes = Some [default_output, bone_bsdf, gold_bsdf]
   \<and> length (filter (\<lambda>n. ntype n = ''BSDF_PRINCIPLED'') [default_output, bone_bsdf, gold_bsdf]) = 2
   \<and> material_to_json (Some bone_unused_nodes) = Inr PyNone
   \<and> material_to_json (Some bone_unused_nodes) \<noteq> Inr (mat_data ''bone'' bone_bsdf)"
  by (simp add: material_eval)

text \<open>
  C6, amended. For every material that uses nodes and whose node tree has a Principled
  BSDF node \<open>b\<close> with no Principled BSDF node before it, \<open>material_to_json\<close> returns the
  record of \<open>b\<close>, and the nodes after \<open>b\<close> (other Principled BSDF nodes among them) have
  no effect on the record: replacing them by any nodes \<open>post'\<close> leaves it unchanged.
\<close>

theorem first_bsdf_wins:
  assumes "use_nodes m" and "node_tree m = Some (pre @ b # post)"
    and "\<forall>n \<in> set pre. ntype n \<noteq> ''BSDF_PRINCIPLED''" and "ntype b = ''BSDF_PRINCIPLED''"
  shows "material_to_json (Some m) = Inr (mat_data (mat_name m) b)
     \<and> material_to_json (Some (m\<lparr>node_tree := Some (pre @ b # post')\<rparr>)) = material_to_json (Some m)"
  using assms by (simp add: material_to_json_def find_bsdf_append)

theorem first_bsdf_wins_witness:
  "material_to_json (Some bone_material) = Inr (mat_data ''bone'' bone_bsdf)
   \<and> material_to_json (Some (bone_material\<lparr>node_tree := Some [default_output, bone_bsdf]\<rparr>))
       = material_to_json (Some bone_material)"
  using first_bsdf_wins [of bone_material "[default_output]" bone_bsdf "[gold_bsdf]" "[]"]
  by (simp add: bone_material_def bone_bsdf_def default_output_def)

text \<open>
  C7. For every material that does not use nodes, or whose node tree contains no
  Principled BSDF node, \<open>material_to_json\<close> returns \<open>None\<close> and does not raise.
\<close>

theorem material_to_json_no_bsdf:
  "\<not> use_nodes m \<or> (\<exists>ns. node_tree m = Some ns \<and> (\<forall>n \<in> set ns. ntype n \<noteq> ''BSDF_PRINCIPLED''))
   \<Longrightarrow> material_to_json (Some m) = Inr PyNone"
  by (auto simp: material_to_json_def find_bsdf_None [symmetric])

theorem material_to_json_no_bsdf_witness:
  "material_to_json (Some bone_no_nodes) = Inr PyNone
   \<and> material_to_json (Some (bone_material\<lparr>node_tree := Some [default_output]\<rparr>)) = Inr PyNone"
  using material_to_json_no_bsdf [of bone_no_nodes]
    material_to_json_no_bsdf [of "bone_material\<lparr>node_tree := Some [default_output]\<rparr>"]
  by (simp add: bone_no_nodes_def bone_material_def default_output_def)

section \<open>Properties of MaterialFile\<close>

lemma keyed_Nil: "keyed []"
  by (simp add: keyed_def)

lemma keyed_update:
  "keyed idx \<Longrightarrow> identifier_of v = None \<or> identifier_of v = Some k \<Longrightarrow> keyed (AList.update k v idx)"
  by (auto simp: keyed_def distinct_update update_conv')

lemma py_getitem_identifier: "py_getitem v ''identifier'' = Inr k \<Longrightarrow> identifier_of v = Some k"
  by (auto simp: py_getitem_def identifier_of_def split: pyval.splits option.splits)

lemma keyed_build_index_loop: "keyed idx \<Longrightarrow> build_index_loop ms idx = Inr idx' \<Longrightarrow> keyed idx'"
proof (induction ms arbitrary: idx)
  case Nil
  then show ?case by simp
next
  case (Cons m ms)
  then show ?case
    by (auto split: sum.splits if_splits dest!: py_getitem_identifier intro: keyed_update)
qed

lemma keyed_build_index: "build_index data = Inr idx \<Longrightarrow> keyed idx"
  by (auto simp: build_index_def split: sum.splits dest: keyed_build_index_loop [OF keyed_Nil])

lemma identifier_of_material_to_json:
  "material_to_json (Some m) = Inr j \<Longrightarrow>
   identifier_of j = None \<or> identifier_of j = Some (PyStr (mat_name m))"
  by (auto simp: material_to_json_def mat_data_def identifier_of_def
      split: option.splits if_splits prod.splits)

lemma keyed_write_material: "keyed idx \<Longrightarrow> write_material idx m = Inr idx' \<Longrightarrow> keyed idx'"
  by (auto simp: write_material_def split: sum.splits
      dest: identifier_of_material_to_json intro!: keyed_update)

lemma keyed_write_materials: "keyed idx \<Longrightarrow> write_materials idx ms = Inr idx' \<Longrightarrow> keyed idx'"
proof (induction ms arbitrary: idx)
  case Nil
  then show ?case by simp
next
  case (Cons m ms)
  then show ?case by (auto split: sum.splits dest: keyed_write_material)
qed

text \<open>In a keyed index the values with the identifier \<open>k\<close> are found under the key \<open>k\<close>.\<close>

lemma keyed_filter:
  "keyed idx \<Longrightarrow> filter (\<lambda>r. identifier_of r = Some k) (map snd idx)
     = (case map_of idx k of None \<Rightarrow> [] | Some v \<Rightarrow> filter (\<lambda>r. identifier_of r = Some k) [v])"
proof (induction idx)
  case Nil
  then show ?case by simp
next
  case (Cons kv idx)
  obtain k' v' where kv: "kv = (k', v')" by (cases kv)
  from Cons.prems have d: "k' \<notin> fst ` set idx" "distinct (map fst idx)"
    by (auto simp: keyed_def kv)
  have sub: "keyed idx" unfolding keyed_def
  proof (intro conjI allI impI)
    show "distinct (map fst idx)" by fact
  next
    fix a b assume m: "map_of idx a = Some b"
    then have "a \<noteq> k'" using d(1) by (metis domI dom_map_of_conv_image_fst)
    with m Cons.prems show "identifier_of b = None \<or> identifier_of b = Some a"
      by (auto simp: keyed_def kv)
  qed
  have hd: "identifier_of v' = None \<or> identifier_of v' = Some k'"
    using Cons.prems by (auto simp: keyed_def kv)
  show ?case
  proof (cases "k = k'")
    case True
    have "map_of idx k = None" using d(1) True by (simp add: map_of_eq_None_iff)
    with Cons.IH [OF sub] True show ?thesis by (simp add: kv)
  next
    case False
    with hd have "identifier_of v' \<noteq> Some k" by auto
    with Cons.IH [OF sub] False show ?thesis by (simp add: kv)
  qed
qed

lemma write_materials_keeps:
  "map_of idx0 k = Some j \<Longrightarrow> \<forall>m' \<in> set ms. PyStr (mat_name m') \<noteq> k \<Longrightarrow>
   write_materials idx0 ms = Inr idx' \<Longrightarrow> map_of idx' k = Some j"
proof (induction ms arbitrary: idx0)
  case Nil
  then show ?case by simp
next
  case (Cons a ms)
  from Cons.prems(3) obtain x where x: "material_to_json (Some a) = Inr x"
    and r: "write_materials (AList.update (PyStr (mat_name a)) x idx0) ms = Inr idx'"
    by (auto simp: write_material_def split: sum.splits)
  have "map_of (AList.update (PyStr (mat_name a)) x idx0) k = Some j"
    using Cons.prems(1,2) by (auto simp: update_conv')
  from Cons.IH [OF this _ r] Cons.prems(2) show ?case by simp
qed

lemma write_materials_last:
  "write_materials idx (ms1 @ m # ms2) = Inr idx' \<Longrightarrow>
   \<forall>m' \<in> set ms2. mat_name m' \<noteq> mat_name m \<Longrightarrow>
   \<exists>j. material_to_json (Some m) = Inr j \<and> map_of idx' (PyStr (mat_name m)) = Some j"
proof (induction ms1 arbitrary: idx)
  case Nil
  from Nil.prems(1) obtain j where j: "material_to_json (Some m) = Inr j"
    and r: "write_materials (AList.update (PyStr (mat_name m)) j idx) ms2 = Inr idx'"
    by (auto simp: write_material_def split: sum.splits)
  have "map_of (AList.update (PyStr (mat_name m)) j idx) (PyStr (mat_name m)) = Some j"
    by (simp add: update_conv')
  from write_materials_keeps [OF this _ r] Nil.prems(2) j show ?case by simp
next
  case (Cons a ms1)
  then show ?case by (auto split: sum.splits)
qed

text \<open>
  C10. A \<open>MaterialFile\<close> is opened on any file and written to by any sequence of
  \<open>write_material\<close> calls that does not raise. The array \<open>hs_materials\<close> that \<open>save\<close>
  writes is the list of the values of the index; for every name it holds at most one
  record with that identifier; and for a material \<open>m\<close> of the sequence after which no
  material of the same name is written, the records of that name in the array are the
  one that the write of \<open>m\<close> produced (none when that write produced \<open>None\<close>).
\<close>

theorem material_file_one_record_per_name:
  assumes "MaterialFile_open file = Inr index0"
    and "write_materials index0 ms = Inr index"
  shows "hs_materials (save index) = Inr (PyList (get_materials index))
    \<and> length (filter (\<lambda>r. identifier_of r = Some (PyStr n)) (get_materials index)) \<le> 1
    \<and> (\<forall>ms1 m ms2. ms = ms1 @ m # ms2 \<and> (\<forall>m' \<in> set ms2. mat_name m' \<noteq> mat_name m) \<longrightarrow>
          (\<exists>j. material_to_json (Some m) = Inr j
             \<and> filter (\<lambda>r. identifier_of r = Some (PyStr (mat_name m))) (get_materials index)
                 = filter (\<lambda>r. identifier_of r = Some (PyStr (mat_name m))) [j]))"
proof -
  have k: "keyed index"
    using assms keyed_build_index keyed_write_materials unfolding MaterialFile_open_def by blast
  have a: "hs_materials (save index) = Inr (PyList (get_materials index))"
    by (simp add: hs_materials_def save_def py_getitem_def)
  have b: "length (filter (\<lambda>r. identifier_of r = Some (PyStr n)) (get_materials index)) \<le> 1"
    unfolding get_materials_def keyed_filter [OF k] by (simp split: option.splits)
  have c: "\<exists>j. material_to_json (Some m) = Inr j
             \<and> filter (\<lambda>r. identifier_of r = Some (PyStr (mat_name m))) (get_materials index)
                 = filter (\<lambda>r. identifier_of r = Some (PyStr (mat_name m))) [j]"
    if "ms = ms1 @ m # ms2" "\<forall>m' \<in> set ms2. mat_name m' \<noteq> mat_name m" for ms1 m ms2
  proof -
    from write_materials_last [OF assms(2) [unfolded that(1)] that(2)]
    obtain j where j: "material_to_json (Some m) = Inr j"
      "map_of index (PyStr (mat_name m)) = Some j"
      by blast
    show ?thesis using j unfolding get_materials_def keyed_filter [OF k] by simp
  qed
  from a b c show ?thesis by blast
qed

lemma open_old_file: "MaterialFile_open (Some old_file) = Inr [(PyStr ''bone'', old_bone)]"
  by (simp add: MaterialFile_open_def ensure_file_exists_def build_index_def hs_materials_def
      py_getitem_def old_file_def old_bone_def py_iter_def hashable_def)

lemma write_bone_twice:
  "write_materials [(PyStr ''bone'', old_bone)] [bone_empty_tree, bone_material]
     = Inr [(PyStr ''bone'', PyDict bone_record)]"
  by (simp add: write_material_def material_eval)

theorem material_file_one_record_per_name_witness:
  "MaterialFile_open (Some old_file) = Inr [(PyStr ''bone'', old_bone)]
   \<and> write_materials [(PyStr ''bone'', old_bone)] [bone_empty_tree, bone_material]
       = Inr [(PyStr ''bone'', PyDict bone_record)]
   \<and> hs_materials (save [(PyStr ''bone'', PyDict bone_record)]) = Inr (PyList [PyDict bone_record])
   \<and> length (filter (\<lambda>r. identifier_of r = Some (PyStr ''bone'')) [PyDict bone_record]) \<le> 1
   \<and> material_to_json (Some bone_material) = Inr (PyDict bone_record)
   \<and> filter (\<lambda>r. identifier_of r = Some (PyStr ''bone'')) [PyDict bone_record]
       = [PyDict bone_record]"
proof -
  note t = material_file_one_record_per_name [OF open_old_file write_bone_twice, of "''bone''"]
  from t have "\<exists>j. material_to_json (Some bone_material) = Inr j
      \<and> filter (\<lambda>r. identifier_of r = Some (PyStr (mat_name bone_material)))
            (get_materials [(PyStr ''bone'', PyDict bone_record)])
          = filter (\<lambda>r. identifier_of r = Some (PyStr (mat_name bone_material))) [j]"
    by (metis append_Cons append_Nil empty_iff list.set(1))
  with t open_old_file write_bone_twice show ?thesis
    by (auto simp: get_materials_def material_eval identifier_of_def)
qed

section \<open>Properties of Export Parts\<close>

lemma length_heap_update [simp]: "length (heap_update h a f) = length h"
  by (simp add: heap_update_def split: option.splits)

lemma nth_heap_update:
  "i < length h \<Longrightarrow> heap_update h a f ! i = (if i = a then map_option f (h ! i) else h ! i)"
  by (auto simp: heap_update_def heap_get_def split: option.splits)

lemma set_matrix_world_alt:
  "set_matrix_world d m ob =
     ob\<lparr>location := fst (d m), rotation_euler := fst (snd (d m)), scale := snd (snd (d m)),
        matrix_world := m\<rparr>"
  by (simp add: set_matrix_world_def split: prod.split)

lemma restored_refl: "restored d ob ob"
  unfolding restored_def by simp

lemma restored_select: "restored d ob0 ob \<Longrightarrow> restored d ob0 (ob\<lparr>select := v\<rparr>)"
  unfolding restored_def by simp

lemma restored_matrix_world: "restored d ob0 ob \<Longrightarrow> matrix_world ob = matrix_world ob0"
  unfolding restored_def set_matrix_world_alt by (cases ob; cases ob0) auto

text \<open>
  One mesh through the body of the loop: selected, moved to the origin, evaluated there
  by the exporter, and given its cached world matrix again.
\<close>

lemma restored_reset:
  "restored d ob0 ob \<Longrightarrow> obj_type ob = ''MESH'' \<Longrightarrow>
   restored d ob0
     (set_matrix_world d (matrix_world ob)
        (evaluated c (ob\<lparr>select := True, location := l, rotation_euler := r, scale := sc\<rparr>)))"
  unfolding restored_def set_matrix_world_alt evaluated_def by (cases ob; cases ob0) auto

lemma same_scene_refl: "same_scene d s s"
  unfolding same_scene_def
  by (simp add: list_all2_conv_all_nth option.rel_refl restored_refl)

lemma same_scene_export_part:
  assumes "same_scene d s0 s"
  shows "same_scene d s0 (snd (snd (export_part c d rt a (em, ep, s))))"
proof (cases "heap_get (objects s) a")
  case None
  with assms show ?thesis by (simp add: export_part_def)
next
  case (Some ob)
  then have a: "a < length (objects s)" "objects s ! a = Some ob"
    by (auto simp: heap_get_def split: if_splits)
  show ?thesis
  proof (cases "obj_type ob \<noteq> ''MESH'' \<or> get_model_name (obj_name ob) \<in> set em")
    case True
    with assms Some show ?thesis by (auto simp: export_part_def Let_def)
  next
    case False
    have len: "length (objects s0) = length (objects s)"
      using assms by (simp add: same_scene_def list_all2_lengthD)
    have rel: "rel_option (restored d) (objects s0 ! i) (objects s ! i)" if "i < length (objects s)" for i
      using assms that by (simp add: same_scene_def list_all2_conv_all_nth)
    show ?thesis
      unfolding same_scene_def list_all2_conv_all_nth
    proof (intro conjI allI impI)
      show "length (objects s0) = length (objects (snd (snd (export_part c d rt a (em, ep, s)))))"
        using False Some len
        by (simp add: export_part_def Let_def select_all_deselect_def select_set_def export_scene_gltf_def)
    next
      fix i assume i: "i < length (objects s0)"
      with len have i': "i < length (objects s)" by simp
      from rel[OF i'] show "rel_option (restored d) (objects s0 ! i) (objects (snd (snd (export_part c d rt a (em, ep, s)))) ! i)"
        using False Some i' a
        by (cases "objects s0 ! i"; cases "objects s ! i")
          (auto simp: export_part_def Let_def select_all_deselect_def select_set_def export_scene_gltf_def
            nth_heap_update intro: restored_select restored_reset)
    qed
  qed
qed

lemma same_scene_export_parts_loop:
  "same_scene d s0 s \<Longrightarrow> export_parts_loop c d rt as (em, ep, s) = (em', ep', s') \<Longrightarrow> same_scene d s0 s'"
proof (induction as arbitrary: em ep s)
  case Nil
  then show ?case by simp
next
  case (Cons a as)
  obtain em1 ep1 s1 where st: "export_part c d rt a (em, ep, s) = (em1, ep1, s1)"
    by (cases "export_part c d rt a (em, ep, s)") auto
  from same_scene_export_part [OF Cons.prems(1), of c rt a em ep] st have "same_scene d s0 s1" by simp
  from Cons.IH [OF this] Cons.prems(2) st show ?case by simp
qed

lemma length_select_each [simp]: "length (objects (select_each as s)) = length (objects s)"
  by (induction as arbitrary: s) (simp_all add: select_set_def)

lemma nth_select_each:
  "i < length (objects s) \<Longrightarrow>
   objects (select_each as s) ! i =
     (if i \<in> set as then map_option (\<lambda>ob. ob\<lparr>select := True\<rparr>) (objects s ! i) else objects s ! i)"
proof (induction as arbitrary: s)
  case Nil
  then show ?case by simp
next
  case (Cons a as)
  then show ?case
    by (cases "objects s ! i") (auto simp: select_set_def nth_heap_update)
qed

lemma active_select_each [simp]: "active (select_each as s) = active s"
  by (induction as arbitrary: s) (simp_all add: select_set_def)

lemma mem_selected_objects:
  "i \<in> set (selected_objects s) \<longleftrightarrow> i < length (objects s) \<and> (\<exists>ob. objects s ! i = Some ob \<and> select ob)"
  by (auto simp: selected_objects_def split: option.splits)

text \<open>The objects after the selection is restored.\<close>

lemma restore_selection_nth:
  assumes "same_scene d s0 s1" and "i < length (objects s0)"
  shows "rel_option (\<lambda>ob0 ob. select ob = select ob0 \<and> restored d ob0 ob) (objects s0 ! i)
           (objects (select_each (selected_objects s0) (select_all_deselect s1)) ! i)"
proof -
  have len: "length (objects s0) = length (objects s1)"
    using assms by (simp add: same_scene_def list_all2_lengthD)
  have rel: "rel_option (restored d) (objects s0 ! i) (objects s1 ! i)"
    using assms by (simp add: same_scene_def list_all2_conv_all_nth)
  show ?thesis
    using rel assms(2) len
    by (cases "objects s0 ! i"; cases "objects s1 ! i")
      (auto simp: nth_select_each select_all_deselect_def mem_selected_objects intro: restored_select)
qed

lemma restored_same_select:
  "restored d ob0 ob \<Longrightarrow> select ob = select ob0 \<Longrightarrow>
   ob = ob0 \<or> obj_type ob0 = ''MESH'' \<and> ob = set_matrix_world d (matrix_world ob0) ob0"
  unfolding restored_def by (cases ob; cases ob0) auto

text \<open>
  What Export Parts leaves of the objects when it finishes: each is as it was, or is a
  mesh as it was with the location, rotation and scale that Blender derives from its
  world matrix, and is selected as it was.
\<close>

lemma export_parts_objects:
  assumes "export_parts_execute compose decompose s = Inr (FINISHED, s')"
  shows "length (objects s') = length (objects s)"
    and "i < length (objects s) \<Longrightarrow>
         rel_option (\<lambda>ob0 ob. select ob = select ob0 \<and> restored decompose ob0 ob)
           (objects s ! i) (objects s' ! i)"
    and "active s' = active s"
proof -
  from assms obtain rt em ep s1 where
    loop: "export_parts_loop compose decompose rt (live (objects s)) ([], None, s) = (em, ep, s1)"
    and s': "s' = report ''INFO'' None
        ((select_each (selected_objects s) (select_all_deselect s1))\<lparr>active := active s\<rparr>)"
    by (auto simp: export_parts_execute_def Let_def split: if_splits option.splits prod.splits)
  have same: "same_scene decompose s s1"
    using same_scene_export_parts_loop [OF same_scene_refl loop] .
  have len1: "length (objects s) = length (objects s1)"
    using same by (simp add: same_scene_def list_all2_lengthD)
  have objs: "objects s' = objects (select_each (selected_objects s) (select_all_deselect s1))"
    by (simp add: s' report_def)
  show "length (objects s') = length (objects s)"
    by (simp add: objs len1 select_all_deselect_def)
  show "rel_option (\<lambda>ob0 ob. select ob = select ob0 \<and> restored decompose ob0 ob)
      (objects s ! i) (objects s' ! i)" if "i < length (objects s)"
    unfolding objs using restore_selection_nth [OF same that] .
  show "active s' = active s"
    by (simp add: s' report_def)
qed

text \<open>
  C4. In every scene in which Export Parts returns \<open>FINISHED\<close>, afterwards the world
  matrix of every object, mesh or not, is the one it had before, the selected objects
  are those that were selected, and the active object is the one that was active. Every
  object is as it was before, or is a mesh that is as it was with the location, rotation
  and scale that Blender derived from that world matrix when the operator assigned it.
\<close>

theorem export_parts_restores_state:
  assumes "export_parts_execute compose decompose s = Inr (FINISHED, s')"
  shows "map (map_option matrix_world) (objects s') = map (map_option matrix_world) (objects s)
    \<and> selected_objects s' = selected_objects s
    \<and> active s' = active s
    \<and> list_all2
        (rel_option (\<lambda>ob ob'. ob' = ob
           \<or> obj_type ob = ''MESH'' \<and> ob' = set_matrix_world decompose (matrix_world ob) ob))
        (objects s) (objects s')"
proof -
  note len = export_parts_objects(1) [OF assms]
  note nth = export_parts_objects(2) [OF assms]
  have a: "map (map_option matrix_world) (objects s') = map (map_option matrix_world) (objects s)"
  proof (rule nth_equalityI)
    show "length (map (map_option matrix_world) (objects s')) = length (map (map_option matrix_world) (objects s))"
      by (simp add: len)
  next
    fix i assume "i < length (map (map_option matrix_world) (objects s'))"
    then have i: "i < length (objects s)" by (simp add: len)
    from nth [OF i] show "map (map_option matrix_world) (objects s') ! i = map (map_option matrix_world) (objects s) ! i"
      using i len
      by (cases "objects s ! i"; cases "objects s' ! i") (auto dest: restored_matrix_world)
  qed
  have b: "selected_objects s' = selected_objects s"
    unfolding selected_objects_def len
  proof (rule filter_cong [OF refl])
    fix i assume "i \<in> set [0..<length (objects s)]"
    then have i: "i < length (objects s)" by simp
    from nth [OF i] show "(case objects s' ! i of None \<Rightarrow> False | Some ob \<Rightarrow> select ob) =
        (case objects s ! i of None \<Rightarrow> False | Some ob \<Rightarrow> select ob)"
      by (cases "objects s ! i"; cases "objects s' ! i") auto
  qed
  have c: "active s' = active s"
    using export_parts_objects(3) [OF assms] .
  have e: "list_all2
      (rel_option (\<lambda>ob ob'. ob' = ob
         \<or> obj_type ob = ''MESH'' \<and> ob' = set_matrix_world decompose (matrix_world ob) ob))
      (objects s) (objects s')"
    unfolding list_all2_conv_all_nth
  proof (intro conjI allI impI)
    show "length (objects s) = length (objects s')" by (simp add: len)
  next
    fix i assume i: "i < length (objects s)"
    from nth [OF i] show "rel_option
        (\<lambda>ob ob'. ob' = ob
           \<or> obj_type ob = ''MESH'' \<and> ob' = set_matrix_world decompose (matrix_world ob) ob)
        (objects s ! i) (objects s' ! i)"
      by (cases "objects s ! i"; cases "objects s' ! i") (auto dest: restored_same_select)
  qed
  from a b c e show ?thesis by blast
qed

text \<open>The scene of the chair, step by step.\<close>

lemma chair_export_folder: "get_export_folder chair_scene = Some \<lparr>anchored = True, names = [''models'']\<rparr>"
  by code_simp

lemma chair_exists: "path_exists (files chair_scene) (Path (filepath chair_scene))"
  by code_simp

lemma chair_live: "live (objects chair_scene) = [0, 1, 2]"
  by code_simp

lemma chair_selected: "selected_objects chair_scene = [2]"
  by code_simp

lemma chair_loop:
  "export_parts_loop compose_unrotated decompose_unrotated \<lparr>anchored = True, names = [''models'']\<rparr>
     [0, 1, 2] ([], None, chair_scene)
   = ([''chair''], Some \<lparr>anchored = True, names = [''models'', ''chair.glb'']\<rparr>,
      chair_scene_loop)"
  by code_simp

lemma chair_restore:
  "report ''INFO'' None
     ((select_each [2] (select_all_deselect chair_scene_loop))\<lparr>active := active chair_scene\<rparr>)
   = chair_scene_exported"
  by code_simp

lemma chair_scene_exported_eval:
  "export_parts_execute compose_unrotated decompose_unrotated chair_scene
     = Inr (FINISHED, chair_scene_exported)"
  unfolding export_parts_execute_def
  by (simp only: Let_def chair_exists chair_export_folder chair_live chair_selected chair_loop
      chair_restore simp_thms if_False if_True option.case prod.case)

lemma chair_scene_facts:
  "selected_objects chair_scene = [2] \<and> active chair_scene = Some 2
   \<and> map (map_option matrix_world) (objects chair_scene)
       = [Some [[1, 0, 0, 1], [0, 1, 0, 2], [0, 0, 1, 3], [0, 0, 0, 1]],
          Some [[1, 0, 0, 0], [0, 1, 0, 0], [0, 0, 1, 0], [0, 0, 0, 1]],
          Some [[1, 0, 0, 0], [0, 1, 0, 0], [0, 0, 1, 0], [0, 0, 0, 1]]]
   \<and> objects chair_scene_exported = objects chair_scene"
  by code_simp

theorem export_parts_restores_state_witness:
  "export_parts_execute compose_unrotated decompose_unrotated chair_scene
     = Inr (FINISHED, chair_scene_exported)
   \<and> map (map_option matrix_world) (objects chair_scene_exported)
       = [Some [[1, 0, 0, 1], [0, 1, 0, 2], [0, 0, 1, 3], [0, 0, 0, 1]],
          Some [[1, 0, 0, 0], [0, 1, 0, 0], [0, 0, 1, 0], [0, 0, 0, 1]],
          Some [[1, 0, 0, 0], [0, 1, 0, 0], [0, 0, 1, 0], [0, 0, 0, 1]]]
   \<and> selected_objects chair_scene_exported = [2]
   \<and> active chair_scene_exported = Some 2
   \<and> list_all2
        (rel_option (\<lambda>ob ob'. ob' = ob
           \<or> obj_type ob = ''MESH''
             \<and> ob' = set_matrix_world decompose_unrotated (matrix_world ob) ob))
        (objects chair_scene) (objects chair_scene_exported)"
  using export_parts_restores_state [OF chair_scene_exported_eval] chair_scene_exported_eval
    chair_scene_facts
  by simp

text \<open>
  An object whose location, rotation and scale are those that Blender derives from its
  world matrix is, with all its properties, as it was.
\<close>

lemma export_parts_keeps_object:
  assumes "export_parts_execute compose decompose s = Inr (FINISHED, s')"
    and "heap_get (objects s) a = Some ob"
    and "decompose (matrix_world ob) = (location ob, rotation_euler ob, scale ob)"
  shows "heap_get (objects s') a = Some ob"
proof -
  from assms(2) have i: "a < length (objects s)" and o: "objects s ! a = Some ob"
    by (auto simp: heap_get_def split: if_splits)
  from export_parts_objects(2) [OF assms(1) i] o obtain ob' where o': "objects s' ! a = Some ob'"
    and r: "restored decompose ob ob'" "select ob' = select ob"
    by (cases "objects s' ! a") auto
  have "set_matrix_world decompose (matrix_world ob) ob = ob"
    using assms(3) by (simp add: set_matrix_world_alt)
  with restored_same_select [OF r] have "ob' = ob" by auto
  with o' i export_parts_objects(1) [OF assms(1)] show ?thesis by (simp add: heap_get_def)
qed

text \<open>
  When the path of the .blend file does not exist, Export Parts returns \<open>CANCELLED\<close>,
  and the state is the one before with the error report added: nothing is selected,
  transformed or exported.
\<close>

lemma export_parts_missing_file:
  "\<not> path_exists (files s) (Path (filepath s)) \<Longrightarrow>
   export_parts_execute compose decompose s
     = Inr (CANCELLED, s\<lparr>reports := reports s @ [(''ERROR'', Some ''File must be saved before exporting.'')]\<rparr>)"
  by (simp add: export_parts_execute_def report_def)

text \<open>The scene of the chair in the file that has never been saved, step by step.\<close>

lemma unsaved_path: "Path (filepath unsaved_scene) = \<lparr>anchored = False, names = []\<rparr>"
  by code_simp

lemma unsaved_exists: "path_exists (files unsaved_scene) (Path (filepath unsaved_scene))"
  by code_simp

lemma unsaved_export_folder: "get_export_folder unsaved_scene = Some \<lparr>anchored = False, names = []\<rparr>"
  by code_simp

lemma unsaved_live: "live (objects unsaved_scene) = [0, 1, 2]"
  by code_simp

lemma unsaved_selected: "selected_objects unsaved_scene = [2]"
  by code_simp

lemma unsaved_loop:
  "export_parts_loop compose_unrotated decompose_unrotated \<lparr>anchored = False, names = []\<rparr>
     [0, 1, 2] ([], None, unsaved_scene)
   = ([''chair''], Some \<lparr>anchored = False, names = [''chair.glb'']\<rparr>, unsaved_scene_loop)"
  by code_simp

lemma unsaved_restore:
  "report ''INFO'' None
     ((select_each [2] (select_all_deselect unsaved_scene_loop))\<lparr>active := active unsaved_scene\<rparr>)
   = unsaved_scene_exported"
  by code_simp

lemma unsaved_scene_exported_eval:
  "export_parts_execute compose_unrotated decompose_unrotated unsaved_scene
     = Inr (FINISHED, unsaved_scene_exported)"
  unfolding export_parts_execute_def
  by (simp only: Let_def unsaved_exists unsaved_export_folder unsaved_live unsaved_selected
      unsaved_loop unsaved_restore simp_thms if_False if_True option.case prod.case)

lemma unsaved_scene_facts:
  "filepath unsaved_scene = [] \<and> files unsaved_scene = []
   \<and> path_str (Path (filepath unsaved_scene)) = ''.''
   \<and> exported unsaved_scene = [] \<and> reports unsaved_scene = []
   \<and> exported unsaved_scene_exported = [(''chair.glb'', [0])]
   \<and> reports unsaved_scene_exported = [(''INFO'', None)]"
  by code_simp

text \<open>
  C8. In a file that has never been saved \<open>bpy.data.filepath\<close> is the empty string, and
  \<open>Path("")\<close> is the current directory, which exists: Export Parts does not cancel. On
  the scene of the chair it exports the chair to \<open>chair.glb\<close> in the current directory,
  reports no error and returns \<open>FINISHED\<close>.
\<close>

theorem export_parts_never_saved:
  "filepath unsaved_scene = [] \<and> files unsaved_scene = []
   \<and> path_str (Path (filepath unsaved_scene)) = ''.''
   \<and> path_exists (files unsaved_scene) (Path (filepath unsaved_scene))
   \<and> export_parts_execute compose_unrotated decompose_unrotated unsaved_scene
       = Inr (FINISHED, unsaved_scene_exported)
   \<and> exported unsaved_scene = [] \<and> reports unsaved_scene = []
   \<and> exported unsaved_scene_exported = [(''chair.glb'', [0])]
   \<and> reports unsaved_scene_exported = [(''INFO'', None)]"
  using unsaved_exists unsaved_scene_exported_eval unsaved_scene_facts by blast

section \<open>Properties of Remove Duplicates\<close>

lemma find_addr_Some:
  "find_addr P h k = Some a \<Longrightarrow> \<exists>i<length h. a = k + i \<and> (\<exists>v. h ! i = Some v \<and> P v)"
proof (induction h arbitrary: k)
  case Nil
  then show ?case by simp
next
  case (Cons x h)
  show ?case
  proof (cases "\<exists>v. x = Some v \<and> P v")
    case True
    with Cons.prems have "a = k" by auto
    with True show ?thesis by (intro exI [of _ 0]) auto
  next
    case False
    with Cons.prems have "find_addr P h (Suc k) = Some a" by (auto split: option.splits)
    from Cons.IH [OF this] obtain i where "i < length h" "a = Suc k + i" "\<exists>v. h ! i = Some v \<and> P v"
      by blast
    then show ?thesis by (intro exI [of _ "Suc i"]) auto
  qed
qed

lemma find_addr_None: "find_addr P h k = None \<Longrightarrow> Some v \<in> set h \<Longrightarrow> \<not> P v"
  by (induction h arbitrary: k) (auto split: option.splits if_splits)

lemma materials_get_Some:
  "materials_get h nm = Some a \<Longrightarrow> \<exists>m. heap_get h a = Some m \<and> mat_name m = nm"
  unfolding materials_get_def heap_get_def by (drule find_addr_Some) auto

lemma mem_material_names:
  "nm \<in> set (material_names h) \<longleftrightarrow> (\<exists>m. Some m \<in> set h \<and> mat_name m = nm)"
  by (force simp: material_names_def List.map_filter_def)

lemma materials_get_None_free:
  assumes "materials_get h nm = None"
  shows "unique_name (material_names (heap_remove h a)) nm = nm"
proof -
  have "nm \<notin> set (material_names (heap_remove h a))"
  proof
    assume "nm \<in> set (material_names (heap_remove h a))"
    then obtain m where m: "Some m \<in> set (h[a := None])" "mat_name m = nm"
      by (auto simp: mem_material_names heap_remove_def)
    from m(1) have "Some m \<in> set h"
      using set_update_subset_insert [of h a None] by auto
    with find_addr_None [OF assms [unfolded materials_get_def]] m(2) show False by auto
  qed
  then show ?thesis by (simp add: unique_name_def)
qed

lemma suffix_match_shorter: "suffix_match nm = Some b \<Longrightarrow> length b < length nm"
  by (auto simp: suffix_match_def Let_def split: if_splits)

lemma process_material_cases:
  assumes "process_material a (r, s) = (r', s')"
  shows "(s' = s \<and> (heap_get (materials s) a = None
             \<or> (\<exists>m. heap_get (materials s) a = Some m \<and> suffix_match (mat_name m) = None)))
    \<or> (\<exists>m b bm mb. heap_get (materials s) a = Some m \<and> suffix_match (mat_name m) = Some b
          \<and> heap_get (materials s) bm = Some mb \<and> mat_name mb = b \<and> bm \<noteq> a
          \<and> materials s' = (materials s)[a := None]
          \<and> objects s' = map (map_option (\<lambda>ob. ob\<lparr>material_slots :=
                map (step_slot a bm (obj_type ob)) (material_slots ob)\<rparr>)) (objects s))
    \<or> (\<exists>m b. heap_get (materials s) a = Some m \<and> suffix_match (mat_name m) = Some b
          \<and> materials s' = (materials s)[a := Some (m\<lparr>mat_name := b\<rparr>)]
          \<and> objects s' = objects s)"
proof (cases "heap_get (materials s) a")
  case None
  with assms show ?thesis by (simp add: process_material_def)
next
  case (Some m)
  show ?thesis
  proof (cases "suffix_match (mat_name m)")
    case None
    with assms Some show ?thesis by (simp add: process_material_def)
  next
    case b: (Some b)
    show ?thesis
    proof (cases "materials_get (materials s) b")
      case None
      have "s' = set_mat_name a b s"
        using assms Some b None by (simp add: process_material_def Let_def)
      then have "materials s' = (materials s)[a := Some (m\<lparr>mat_name := b\<rparr>)] \<and> objects s' = objects s"
        using Some by (simp add: set_mat_name_def heap_update_def materials_get_None_free [OF None])
      with Some b show ?thesis by blast
    next
      case bm: (Some bm)
      from materials_get_Some [OF bm] obtain mb where mb: "heap_get (materials s) bm = Some mb" "mat_name mb = b"
        by blast
      have s': "s' = materials_remove a (replace_users a bm s)"
        using assms Some b bm by (simp add: process_material_def Let_def)
      have ne: "bm \<noteq> a"
        using suffix_match_shorter [OF b] mb Some by auto
      have "materials s' = (materials s)[a := None]"
        by (simp add: s' materials_remove_def replace_users_def heap_remove_def)
      moreover have "objects s' = map (map_option (\<lambda>ob. ob\<lparr>material_slots :=
                map (step_slot a bm (obj_type ob)) (material_slots ob)\<rparr>)) (objects s)"
        using ne
        by (auto simp: s' materials_remove_def replace_users_def step_slot_def option.map_comp o_def
            intro!: map_cong option.map_cong)
      ultimately show ?thesis using Some b mb ne by blast
    qed
  qed
qed


lemma slots_kept_refl: "slots_kept mats mats ob ob"
  by (simp add: slots_kept_def)

lemma dup_inv_init: "dup_inv s [] s"
  by (simp add: dup_inv_def list_all2_conv_all_nth option.rel_refl slots_kept_refl)

lemma slots_kept_type: "slots_kept mats0 mats ob0 ob \<Longrightarrow> obj_type ob = obj_type ob0"
  unfolding slots_kept_def by (cases ob; cases ob0) auto

lemma slots_kept_mono:
  assumes "slots_kept mats0 mats ob0 ob"
    and "\<And>b. heap_get mats b \<noteq> None \<Longrightarrow> heap_get mats' b \<noteq> None"
  shows "slots_kept mats0 mats' ob0 ob"
  using assms unfolding slots_kept_def by blast

lemma slots_kept_remove:
  assumes k: "slots_kept mats0 mats ob0 ob"
    and bm: "heap_get mats bm \<noteq> None" "bm \<noteq> a"
  shows "slots_kept mats0 (mats[a := None]) ob0
           (ob\<lparr>material_slots := map (step_slot a bm (obj_type ob)) (material_slots ob)\<rparr>)"
  unfolding slots_kept_def
proof (intro conjI impI allI)
  show "ob\<lparr>material_slots := map (step_slot a bm (obj_type ob)) (material_slots ob)\<rparr>
      \<lparr>material_slots := material_slots ob0\<rparr> = ob0"
    using k by (simp add: slots_kept_def)
  show "length (material_slots (ob\<lparr>material_slots := map (step_slot a bm (obj_type ob)) (material_slots ob)\<rparr>))
      = length (material_slots ob0)"
    using k by (simp add: slots_kept_def)
next
  fix i b
  assume mesh: "obj_type ob0 = ''MESH''" and i: "i < length (material_slots ob0)"
    and b: "material_slots ob0 ! i = Some b \<and> heap_get mats0 b \<noteq> None"
  from k mesh i b obtain b' where b': "material_slots ob ! i = Some b'" "heap_get mats b' \<noteq> None"
    unfolding slots_kept_def by blast
  have len: "i < length (material_slots ob)" using k i by (simp add: slots_kept_def)
  have ty: "obj_type ob = ''MESH''" using slots_kept_type [OF k] mesh by simp
  show "\<exists>b'. material_slots (ob\<lparr>material_slots := map (step_slot a bm (obj_type ob)) (material_slots ob)\<rparr>) ! i = Some b'
      \<and> heap_get (mats[a := None]) b' \<noteq> None"
  proof (cases "b' = a")
    case True
    with b' bm len ty show ?thesis
      by (auto simp: step_slot_def heap_get_def split: if_splits)
  next
    case False
    with b' bm len ty show ?thesis
      by (auto simp: step_slot_def heap_get_def split: if_splits)
  qed
qed

lemma outcome_step:
  assumes inv: "\<forall>i<n. if i \<in> set seen then outcome (m0 ! i) (m ! i) else m ! i = m0 ! i"
    and a: "a \<notin> set seen" and len: "length m = n"
    and o: "a < n \<Longrightarrow> outcome (m0 ! a) x"
  shows "\<forall>i<n. if i \<in> set (a # seen) then outcome (m0 ! i) (m[a := x] ! i)
                else m[a := x] ! i = m0 ! i"
proof (intro allI impI)
  fix i assume i: "i < n"
  show "if i \<in> set (a # seen) then outcome (m0 ! i) (m[a := x] ! i) else m[a := x] ! i = m0 ! i"
  proof (cases "i = a")
    case True
    with o i len show ?thesis by simp
  next
    case False
    with inv i show ?thesis by simp
  qed
qed

lemma dup_inv_step:
  assumes inv: "dup_inv s0 seen s" and a: "a \<notin> set seen"
    and step: "process_material a (r, s) = (r', s')"
  shows "dup_inv s0 (a # seen) s'"
proof -
  have len: "length (materials s) = length (materials s0)"
    and lenobj: "length (objects s0) = length (objects s)"
    using inv by (auto simp: dup_inv_def list_all2_lengthD)
  have same: "materials s ! a = materials s0 ! a" if "a < length (materials s0)"
    using inv a that by (auto simp: dup_inv_def)
  have objs: "rel_option (slots_kept (materials s0) (materials s)) (objects s0 ! i) (objects s ! i)"
    if "i < length (objects s)" for i
    using inv that by (simp add: dup_inv_def list_all2_conv_all_nth)
  from process_material_cases [OF step] consider
    (A) "s' = s" "heap_get (materials s) a = None
        \<or> (\<exists>m. heap_get (materials s) a = Some m \<and> suffix_match (mat_name m) = None)"
  | (B) m b bm mb where "heap_get (materials s) a = Some m" "suffix_match (mat_name m) = Some b"
      "heap_get (materials s) bm = Some mb" "bm \<noteq> a"
      "materials s' = (materials s)[a := None]"
      "objects s' = map (map_option (\<lambda>ob. ob\<lparr>material_slots :=
                map (step_slot a bm (obj_type ob)) (material_slots ob)\<rparr>)) (objects s)"
  | (C) m b where "heap_get (materials s) a = Some m" "suffix_match (mat_name m) = Some b"
      "materials s' = (materials s)[a := Some (m\<lparr>mat_name := b\<rparr>)]" "objects s' = objects s"
    by blast
  then show ?thesis
  proof cases
    case A
    have "outcome (materials s0 ! a) (materials s ! a)" if "a < length (materials s0)"
      using A(2) same [OF that] that len
      by (auto simp: outcome_def heap_get_def split: option.splits)
    with inv A(1) show ?thesis by (auto simp: dup_inv_def)
  next
    case B
    have o: "outcome (materials s0 ! a) (materials s' ! a)" if "a < length (materials s0)"
      using B same [OF that] that len
      by (auto simp: outcome_def heap_get_def split: option.splits if_splits)
    have m: "\<forall>i<length (materials s0).
           if i \<in> set (a # seen) then outcome (materials s0 ! i) (materials s' ! i)
           else materials s' ! i = materials s0 ! i"
      unfolding B(5) using inv a len o [unfolded B(5)]
      by (intro outcome_step) (auto simp: dup_inv_def)
    have ob: "list_all2 (rel_option (slots_kept (materials s0) (materials s'))) (objects s0) (objects s')"
      unfolding list_all2_conv_all_nth
    proof (intro conjI allI impI)
      show "length (objects s0) = length (objects s')" using lenobj B(6) by simp
    next
      fix i assume "i < length (objects s0)"
      then have i: "i < length (objects s)" using lenobj by simp
      from objs [OF i] show "rel_option (slots_kept (materials s0) (materials s')) (objects s0 ! i) (objects s' ! i)"
        using i B(3,4)
        by (cases "objects s0 ! i"; cases "objects s ! i")
          (auto simp: B(5,6) intro!: slots_kept_remove)
    qed
    from m ob len B(5) show ?thesis by (simp add: dup_inv_def)
  next
    case C
    have o: "outcome (materials s0 ! a) (materials s' ! a)" if "a < length (materials s0)"
      using C same [OF that] that len
      by (auto simp: outcome_def heap_get_def split: option.splits if_splits)
    have m: "\<forall>i<length (materials s0).
           if i \<in> set (a # seen) then outcome (materials s0 ! i) (materials s' ! i)
           else materials s' ! i = materials s0 ! i"
      unfolding C(3) using inv a len o [unfolded C(3)]
      by (intro outcome_step) (auto simp: dup_inv_def)
    have live: "heap_get (materials s') b' \<noteq> None" if "heap_get (materials s) b' \<noteq> None" for b'
      using that by (cases "b' = a") (auto simp: C(3) heap_get_def split: if_splits)
    have ob: "list_all2 (rel_option (slots_kept (materials s0) (materials s'))) (objects s0) (objects s')"
      unfolding list_all2_conv_all_nth
    proof (intro conjI allI impI)
      show "length (objects s0) = length (objects s')" using lenobj C(4) by simp
    next
      fix i assume "i < length (objects s0)"
      then have i: "i < length (objects s)" using lenobj by simp
      from objs [OF i] show "rel_option (slots_kept (materials s0) (materials s')) (objects s0 ! i) (objects s' ! i)"
        using live
        by (cases "objects s0 ! i"; cases "objects s ! i")
          (auto simp: C(4) intro: slots_kept_mono)
    qed
    from m ob len C(3) show ?thesis by (simp add: dup_inv_def)
  qed
qed

lemma dup_inv_loop:
  "dup_inv s0 seen s \<Longrightarrow> distinct as \<Longrightarrow> set as \<inter> set seen = {} \<Longrightarrow>
   process_materials as (r, s) = (r', s') \<Longrightarrow> dup_inv s0 (rev as @ seen) s'"
proof (induction as arbitrary: seen r s)
  case Nil
  then show ?case by simp
next
  case (Cons a as)
  obtain r1 s1 where st: "process_material a (r, s) = (r1, s1)"
    by (cases "process_material a (r, s)") auto
  have i1: "dup_inv s0 (a # seen) s1"
    using dup_inv_step [OF Cons.prems(1) _ st] Cons.prems(3) by auto
  have d: "distinct as" "set as \<inter> set (a # seen) = {}"
    using Cons.prems(2,3) by auto
  have r: "process_materials as (r1, s1) = (r', s')"
    using Cons.prems(4) st by simp
  from Cons.IH [OF i1 d r] show ?case by simp
qed


lemma process_material_match:
  assumes m: "heap_get (materials t) a = Some m" and b: "suffix_match (mat_name m) = Some b"
  shows "case materials_get (materials t) b of
      None \<Rightarrow>
        materials (snd (process_material a (r, t))) = (materials t)[a := Some (m\<lparr>mat_name := b\<rparr>)]
        \<and> objects (snd (process_material a (r, t))) = objects t
    | Some bm \<Rightarrow>
        materials (snd (process_material a (r, t))) = (materials t)[a := None]
        \<and> objects (snd (process_material a (r, t))) =
            map (map_option (\<lambda>ob. ob\<lparr>material_slots :=
              map (step_slot a bm (obj_type ob)) (material_slots ob)\<rparr>)) (objects t)"
proof (cases "materials_get (materials t) b")
  case None
  have "snd (process_material a (r, t)) = set_mat_name a b t"
    using m b None by (simp add: process_material_def Let_def)
  then show ?thesis
    using m None by (simp add: set_mat_name_def heap_update_def materials_get_None_free [OF None])
next
  case (Some bm)
  from materials_get_Some [OF Some] obtain mb where mb: "heap_get (materials t) bm = Some mb" "mat_name mb = b"
    by blast
  have ne: "bm \<noteq> a"
    using suffix_match_shorter [OF b] mb m by auto
  have s': "snd (process_material a (r, t)) = materials_remove a (replace_users a bm t)"
    using m b Some by (simp add: process_material_def Let_def)
  show ?thesis
    using ne
    by (auto simp: Some s' materials_remove_def replace_users_def heap_remove_def step_slot_def
        option.map_comp o_def intro!: map_cong option.map_cong)
qed

lemma distinct_live: "distinct (live h)"
  by (simp add: live_def)

lemma set_live: "set (live h) = {a. a < length h \<and> h ! a \<noteq> None}"
  by (auto simp: live_def)

text \<open>
  C9, amended. After Remove Duplicates, which always finishes, every material whose name
  did not match the pattern is as it was, and every material whose name matched with the
  base \<open>b\<close> is removed or bears the name \<open>b\<close> (so a name of the pattern remains exactly
  where \<open>b\<close> itself has the pattern). Every mesh is as it was but for its material
  slots, of which each that referred to a material still refers to a material. At the
  time a matching material is processed: if a material named \<open>b\<close> exists then, the
  material is removed, the mesh slots that referred to it refer to that material and the
  other slots that referred to it are empty; otherwise it is renamed to \<open>b\<close> and no
  object changes.
\<close>

theorem remove_duplicates_outcome:
  assumes "remove_duplicate_materials_execute s = (st, s')"
  shows "st = FINISHED
    \<and> length (materials s') = length (materials s)
    \<and> (\<forall>a m. heap_get (materials s) a = Some m \<longrightarrow>
          (case suffix_match (mat_name m) of
             None \<Rightarrow> heap_get (materials s') a = Some m
           | Some b \<Rightarrow> heap_get (materials s') a = None
                \<or> heap_get (materials s') a = Some (m\<lparr>mat_name := b\<rparr>)))
    \<and> (\<forall>k ob. heap_get (objects s) k = Some ob \<and> obj_type ob = ''MESH'' \<longrightarrow>
          (\<exists>ob'. heap_get (objects s') k = Some ob'
             \<and> ob'\<lparr>material_slots := material_slots ob\<rparr> = ob
             \<and> length (material_slots ob') = length (material_slots ob)
             \<and> (\<forall>i<length (material_slots ob). \<forall>b.
                   material_slots ob ! i = Some b \<and> heap_get (materials s) b \<noteq> None \<longrightarrow>
                   (\<exists>b'. material_slots ob' ! i = Some b' \<and> heap_get (materials s') b' \<noteq> None))))
    \<and> (\<forall>a r t m b. heap_get (materials t) a = Some m \<and> suffix_match (mat_name m) = Some b \<longrightarrow>
          (case materials_get (materials t) b of
             None \<Rightarrow>
               materials (snd (process_material a (r, t))) = (materials t)[a := Some (m\<lparr>mat_name := b\<rparr>)]
               \<and> objects (snd (process_material a (r, t))) = objects t
           | Some bm \<Rightarrow>
               materials (snd (process_material a (r, t))) = (materials t)[a := None]
               \<and> objects (snd (process_material a (r, t))) =
                   map (map_option (\<lambda>ob. ob\<lparr>material_slots :=
                     map (step_slot a bm (obj_type ob)) (material_slots ob)\<rparr>)) (objects t)))"
proof -
  from assms obtain r s1 where
    loop: "process_materials (live (materials s)) ([], s) = (r, s1)"
    and st: "st = FINISHED"
    and s': "materials s' = materials s1" "objects s' = objects s1"
    by (auto simp: remove_duplicate_materials_execute_def report_def split: prod.splits)
  have "dup_inv s (rev (live (materials s)) @ []) s1"
    using dup_inv_loop [OF dup_inv_init distinct_live _ loop] by simp
  then have inv: "dup_inv s (rev (live (materials s))) s'"
    by (simp add: dup_inv_def s')
  have len: "length (materials s') = length (materials s)"
    using inv by (simp add: dup_inv_def)
  have mats: "case suffix_match (mat_name m) of
             None \<Rightarrow> heap_get (materials s') a = Some m
           | Some b \<Rightarrow> heap_get (materials s') a = None
                \<or> heap_get (materials s') a = Some (m\<lparr>mat_name := b\<rparr>)"
    if "heap_get (materials s) a = Some m" for a m
  proof -
    from that have a: "a < length (materials s)" "materials s ! a = Some m"
      by (auto simp: heap_get_def split: if_splits)
    then have "a \<in> set (rev (live (materials s)))" by (simp add: set_live)
    with inv a(1) have "outcome (materials s ! a) (materials s' ! a)"
      by (auto simp: dup_inv_def)
    with a len show ?thesis
      by (auto simp: outcome_def heap_get_def split: option.splits)
  qed
  have objs: "\<exists>ob'. heap_get (objects s') k = Some ob'
             \<and> ob'\<lparr>material_slots := material_slots ob\<rparr> = ob
             \<and> length (material_slots ob') = length (material_slots ob)
             \<and> (\<forall>i<length (material_slots ob). \<forall>b.
                   material_slots ob ! i = Some b \<and> heap_get (materials s) b \<noteq> None \<longrightarrow>
                   (\<exists>b'. material_slots ob' ! i = Some b' \<and> heap_get (materials s') b' \<noteq> None))"
    if "heap_get (objects s) k = Some ob" "obj_type ob = ''MESH''" for k ob
  proof -
    from that have o: "k < length (objects s)" "objects s ! k = Some ob"
      by (auto simp: heap_get_def split: if_splits)
    have l: "list_all2 (rel_option (slots_kept (materials s) (materials s'))) (objects s) (objects s')"
      using inv by (simp add: dup_inv_def)
    then have lo: "length (objects s') = length (objects s)"
      by (simp add: list_all2_lengthD)
    from l o(1) have "rel_option (slots_kept (materials s) (materials s')) (objects s ! k) (objects s' ! k)"
      by (simp add: list_all2_conv_all_nth)
    with o obtain ob' where ob': "objects s' ! k = Some ob'" "slots_kept (materials s) (materials s') ob ob'"
      by (cases "objects s' ! k") auto
    with o lo that(2) show ?thesis
      by (auto simp: heap_get_def slots_kept_def)
  qed
  from st len mats objs process_material_match show ?thesis by blast
qed

text \<open>
  C9, as the claim states it, fails: the only material of the scene is named
  \<open>bone.001.002\<close>; the operator renames it to its base \<open>bone.001\<close>, a name of the
  pattern, and that material remains.
\<close>

theorem remove_duplicates_double_suffix_counterexample:
  "remove_duplicate_materials_execute suffix_scene
     = (FINISHED, suffix_scene\<lparr>materials := [Some (plain_material ''bone.001'')],
          reports := [(''INFO'', Some ''Processed 1 materials.'')]\<rparr>)
   \<and> suffix_match ''bone.001.002'' = Some ''bone.001''
   \<and> suffix_match ''bone.001'' = Some ''bone''"
  by code_simp

lemma bone_scene_cleaned_eval:
  "remove_duplicate_materials_execute bone_scene = (FINISHED, bone_scene_cleaned)"
  by code_simp

lemma bone_scene_facts:
  "length (materials bone_scene_cleaned) = length (materials bone_scene)
   \<and> heap_get (materials bone_scene) 0 = Some (plain_material ''bone.001'')
   \<and> suffix_match ''bone.001'' = Some ''bone''
   \<and> heap_get (materials bone_scene_cleaned) 0 = None
   \<and> heap_get (materials bone_scene_cleaned) 1 = Some (plain_material ''bone'')
   \<and> map (map_option material_slots) (objects bone_scene) = [Some [Some 0, Some 1, None]]
   \<and> map (map_option material_slots) (objects bone_scene_cleaned) = [Some [Some 1, Some 1, None]]"
  by code_simp

theorem remove_duplicates_outcome_witness:
  "remove_duplicate_materials_execute bone_scene = (FINISHED, bone_scene_cleaned)
   \<and> length (materials bone_scene_cleaned) = length (materials bone_scene)
   \<and> heap_get (materials bone_scene) 0 = Some (plain_material ''bone.001'')
   \<and> suffix_match ''bone.001'' = Some ''bone''
   \<and> heap_get (materials bone_scene_cleaned) 0 = None
   \<and> heap_get (materials bone_scene_cleaned) 1 = Some (plain_material ''bone'')
   \<and> map (map_option material_slots) (objects bone_scene) = [Some [Some 0, Some 1, None]]
   \<and> map (map_option material_slots) (objects bone_scene_cleaned) = [Some [Some 1, Some 1, None]]"
  using remove_duplicates_outcome [OF bone_scene_cleaned_eval] bone_scene_cleaned_eval
    bone_scene_facts
  by blast

section \<open>The round trip on materials that use nodes\<close>

text \<open>
  Where \<open>json_to_material\<close> creates the material, or finds one that already uses nodes
  and has a node tree, a record of three colour components, a metallic and a roughness
  value, each already rounded to three decimals, comes back unchanged. This is a
  statement of the model, in which an input keeps the number assigned to it.
\<close>

lemma materials_get_None_fresh:
  assumes "materials_get h nm = None"
  shows "unique_name (material_names h) nm = nm"
proof -
  have "nm \<notin> set (material_names h)"
    using find_addr_None [OF assms [unfolded materials_get_def]]
    by (auto simp: mem_material_names)
  then show ?thesis by (simp add: unique_name_def)
qed

lemma round_trip_uses_nodes:
  assumes r: "round3 r = r" "round3 g = g" "round3 b = b" "round3 me = me" "round3 ro = ro"
    and m: "materials_get mats nm = None
      \<or> (\<exists>a m ns. materials_get mats nm = Some a \<and> heap_get mats a = Some m
            \<and> use_nodes m \<and> node_tree m = Some ns)"
  shows "round_trip [(''identifier'', PyStr nm), (''color'', PyList [PyNum r, PyNum g, PyNum b]),
                     (''metal'', PyNum me), (''roughness'', PyNum ro)] mats
     = Inr (PyDict [(''identifier'', PyStr nm), (''color'', PyList [PyNum r, PyNum g, PyNum b]),
                    (''metal'', PyNum me), (''roughness'', PyNum ro)])"
  using m
proof
  assume n: "materials_get mats nm = None"
  show ?thesis
    using r
    by (simp add: round_trip_def json_to_material_def dict_get_def n materials_new_def heap_new_def
        materials_get_None_fresh [OF n] heap_update_def heap_get_def heap_put_def
        set_use_nodes_True_def rebuild_nodes_def py_iter_def assign_rgba_def assign_float_def
        material_to_json_def mat_data_def default_bsdf_def default_output_def Let_def)
next
  assume "\<exists>a m ns. materials_get mats nm = Some a \<and> heap_get mats a = Some m
            \<and> use_nodes m \<and> node_tree m = Some ns"
  then obtain a m ns where a: "materials_get mats nm = Some a" "heap_get mats a = Some m"
    "use_nodes m" "node_tree m = Some ns"
    by blast
  from materials_get_Some [OF a(1)] a(2) have nm: "mat_name m = nm" by simp
  from a(2) have lt: "a < length mats" by (auto simp: heap_get_def split: if_splits)
  show ?thesis
    using r a nm lt
    by (simp add: round_trip_def json_to_material_def dict_get_def heap_get_def heap_put_def
        rebuild_nodes_def py_iter_def assign_rgba_def assign_float_def
        material_to_json_def mat_data_def default_bsdf_def default_output_def Let_def)
qed

section \<open>Export Empties on the two seats\<close>

lemma seat_export_path:
  "get_export_path (filepath seat_scene) seat_scene
     = Inr \<lparr>anchored = True, names = [''models'', ''chair'']\<rparr>"
  by code_simp

lemma seat_export_path_str: "path_str \<lparr>anchored = True, names = [''models'', ''chair'']\<rparr> = ''/models/chair''"
  by code_simp

lemma seat_live: "live (objects seat_scene) = [0, 1]"
  by code_simp

lemma seat_replace_meshes:
  "replace_meshes decompose_unrotated [0, 1] ([], [], [], seat_scene)
     = ([(0, 2, ''seat_1''), (1, 3, ''x_seat'')], [2, 3], [(''1'', 1), (''seat'', 1)],
        seat_scene_replaced)"
  by code_simp

lemma seat_select_export:
  "export_scene_gltf compose_unrotated ''/models/chair''
     ((select_empties_cameras (live (objects (select_all_deselect seat_scene_replaced)))
        (select_all_deselect seat_scene_replaced))\<lparr>active := Some 2\<rparr>) = seat_scene_selected"
  by code_simp

lemma seat_restore_scene:
  "restore_scene [(0, 2, ''seat_1''), (1, 3, ''x_seat'')] seat_scene_selected
     = seat_scene_exported\<lparr>reports := []\<rparr>"
  by code_simp

lemma seat_report:
  "report ''INFO'' (Some (''Exported to '' @ ''/models/chair''))
     (seat_scene_exported\<lparr>reports := []\<rparr>) = seat_scene_exported"
  by code_simp

lemma seat_scene_exported_eval:
  "export_empties_execute compose_unrotated decompose_unrotated seat_scene
     = Inr (FINISHED, seat_scene_exported)"
  unfolding export_empties_execute_def seat_export_path seat_live seat_replace_meshes
  by (simp only: sum.case prod.case Let_def list.distinct list.sel simp_thms if_True
      seat_export_path_str seat_select_export seat_restore_scene seat_report)

lemma seat_scene_names:
  "object_names (objects seat_scene) = [''seat_1'', ''x_seat'']
   \<and> object_names (objects seat_scene_exported) = [''seat_1.001'', ''x_seat'']
   \<and> live (objects seat_scene_exported) = live (objects seat_scene)"
  by code_simp

text \<open>
  C5. Export Empties finishes on the scene of the meshes \<open>seat_1\<close> and \<open>x_seat\<close>, and
  the objects that exist afterwards are those that existed before; but the first mesh
  is then named \<open>seat_1.001\<close>. The empty that stands for \<open>x_seat\<close> takes the name
  \<open>seat_1\<close> while the first mesh is named \<open>seat_1_original\<close>, and it is still there
  when the restoring loop, which removes the empty of a mesh just before it renames the
  mesh, gives the first mesh its name back.
\<close>

theorem export_empties_name_collision:
  "export_empties_execute compose_unrotated decompose_unrotated seat_scene
     = Inr (FINISHED, seat_scene_exported)
   \<and> object_names (objects seat_scene) = [''seat_1'', ''x_seat'']
   \<and> object_names (objects seat_scene_exported) = [''seat_1.001'', ''x_seat'']
   \<and> live (objects seat_scene_exported) = live (objects seat_scene)"
  using seat_scene_exported_eval seat_scene_names by blast

end
